theory Spec2Isabelle
  imports Main "HOL-Library.Word"
begin

section \<open>Errors\<close>

text \<open>
  Every \<^verbatim>\<open>throw\<close> and every rejected promise of the TypeScript sources is a value
  \<open>Inl e\<close> of the result type \<open>error + 'a\<close>. The constructors follow the JavaScript
  error classes the sources raise; \<open>SolanaError\<close> carries the error code that
  \<^verbatim>\<open>isSolanaError(error, code)\<close> compares against.
\<close>

datatype solana_error_code =
  TransactionErrorAlreadyProcessed
  | OtherSolanaErrorCode nat

datatype error =
  Error string
  | RangeError string
  | SyntaxError string
  | TypeError string
  | SolanaError solana_error_code
  | AbortError

definition isSolanaError :: "error \<Rightarrow> solana_error_code \<Rightarrow> bool" where
  "isSolanaError e code = (case e of SolanaError c \<Rightarrow> c = code | _ \<Rightarrow> False)"

section \<open>JavaScript numbers\<close>

text \<open>
  A JavaScript \<^verbatim>\<open>number\<close> is an IEEE-754 double. \<open>Finite m e\<close> stands for the
  value \<open>m * 2 ^ e\<close>; the two zeros are not distinguished. \<open>to_double\<close> rounds an exact
  dyadic value to the nearest double (53 significant bits, ties to even, gradual
  underflow at \<open>2 ^ -1074\<close>, overflow to infinity), which is what every arithmetic
  operator of the language does to its exact result.
\<close>

datatype js_number = NaN | PosInfinity | NegInfinity | Finite int int

fun bit_length :: "nat \<Rightarrow> nat" where
  "bit_length n = (if n = 0 then 0 else Suc (bit_length (n div 2)))"

declare bit_length.simps [simp del]

definition round_half_even :: "int \<Rightarrow> nat \<Rightarrow> int" where
  "round_half_even a k =
     (if k = 0 then a
      else let q = a div 2 ^ k; r = a mod 2 ^ k; half = 2 ^ (k - 1)
           in if half < r \<or> (r = half \<and> odd q) then q + 1 else q)"

definition finite_or_overflow :: "int \<Rightarrow> int \<Rightarrow> js_number" where
  "finite_or_overflow m e =
     (if m = 0 then Finite 0 0
      else if 1024 < int (bit_length (nat \<bar>m\<bar>)) + e
           then (if 0 < m then PosInfinity else NegInfinity)
      else Finite m e)"

definition to_double :: "int \<Rightarrow> int \<Rightarrow> js_number" where
  "to_double m e =
     (let a = \<bar>m\<bar>; k = max (int (bit_length (nat a)) - 53) (- 1074 - e)
      in if k \<le> 0 then finite_or_overflow m e
         else finite_or_overflow (sgn m * round_half_even a (nat k)) (e + k))"

definition js_sign :: "js_number \<Rightarrow> int" where
  "js_sign x = (case x of NaN \<Rightarrow> 0 | PosInfinity \<Rightarrow> 1 | NegInfinity \<Rightarrow> - 1 | Finite m e \<Rightarrow> sgn m)"

fun js_mul :: "js_number \<Rightarrow> js_number \<Rightarrow> js_number" where
  "js_mul NaN y = NaN"
| "js_mul x NaN = NaN"
| "js_mul (Finite m1 e1) (Finite m2 e2) = to_double (m1 * m2) (e1 + e2)"
| "js_mul x y =
     (if js_sign x * js_sign y = 0 then NaN
      else if 0 < js_sign x * js_sign y then PosInfinity else NegInfinity)"

text \<open>\<^verbatim>\<open>Math.ceil\<close> and \<^verbatim>\<open>Math.floor\<close>: the result is an integer, kept with exponent 0.\<close>

definition js_ceil :: "js_number \<Rightarrow> js_number" where
  "js_ceil x = (case x of
      Finite m e \<Rightarrow> Finite (if 0 \<le> e then m * 2 ^ nat e else - ((- m) div 2 ^ nat (- e))) 0
    | _ \<Rightarrow> x)"

definition js_floor :: "js_number \<Rightarrow> js_number" where
  "js_floor x = (case x of
      Finite m e \<Rightarrow> Finite (if 0 \<le> e then m * 2 ^ nat e else m div 2 ^ nat (- e)) 0
    | _ \<Rightarrow> x)"

definition js_less :: "js_number \<Rightarrow> js_number \<Rightarrow> bool" where
  "js_less x y = (case (x, y) of
      (NaN, _) \<Rightarrow> False
    | (_, NaN) \<Rightarrow> False
    | (Finite m1 e1, Finite m2 e2) \<Rightarrow>
        (let e = min e1 e2 in m1 * 2 ^ nat (e1 - e) < m2 * 2 ^ nat (e2 - e))
    | (NegInfinity, NegInfinity) \<Rightarrow> False
    | (NegInfinity, _) \<Rightarrow> True
    | (_, PosInfinity) \<Rightarrow> x \<noteq> PosInfinity
    | _ \<Rightarrow> False)"

text \<open>\<^verbatim>\<open>Math.max(a, b)\<close>: \<open>NaN\<close> if either argument is, the larger one otherwise.\<close>

definition js_max :: "js_number \<Rightarrow> js_number \<Rightarrow> js_number" where
  "js_max a b = (if a = NaN \<or> b = NaN then NaN else if js_less a b then b else a)"

text \<open>Truthiness of a number: everything but zero and \<open>NaN\<close>.\<close>

definition js_truthy :: "js_number \<Rightarrow> bool" where
  "js_truthy x = (case x of NaN \<Rightarrow> False | Finite m e \<Rightarrow> m \<noteq> 0 | _ \<Rightarrow> True)"

text \<open>\<^verbatim>\<open>Number(b)\<close> for a bigint \<open>b\<close>, and \<^verbatim>\<open>BigInt(x)\<close> for a number \<open>x\<close> (a
  \<^verbatim>\<open>RangeError\<close> unless \<open>x\<close> is an integer).\<close>

definition Number_of_bigint :: "int \<Rightarrow> js_number" where
  "Number_of_bigint b = to_double b 0"

definition BigInt_of_number :: "js_number \<Rightarrow> error + int" where
  "BigInt_of_number x = (case x of
      Finite m e \<Rightarrow>
        (if 0 \<le> e then Inr (m * 2 ^ nat e)
         else if m mod 2 ^ nat (- e) = 0 then Inr (m div 2 ^ nat (- e))
         else Inl (RangeError ''The number cannot be converted to a BigInt because it is not an integer''))
    | _ \<Rightarrow> Inl (RangeError ''The number cannot be converted to a BigInt because it is not an integer''))"

section \<open>Transaction data\<close>

type_synonym address = string

type_synonym signature = string

datatype commitment = Processed | Confirmed | Finalized

record blockhash_lifetime =
  blockhash :: string
  lastValidBlockHeight :: int

record account_meta =
  meta_address :: address
  meta_role :: nat

record address_table_lookup =
  lookupTableAddress :: address
  lookupIndexes :: "nat list"

text \<open>
  An instruction as \<^verbatim>\<open>instructionUsesAddressLookup\<close> and the compute-budget tests read
  it: \<open>data = None\<close> is an instruction without a \<^verbatim>\<open>data\<close> property,
  \<open>addressTableLookup = None\<close> one whose property is missing or \<^verbatim>\<open>null\<close>, and
  \<open>addressTableLookups = None\<close> one whose property is missing or not an array.
\<close>

record instruction =
  programAddress :: address
  accounts :: "account_meta list option"
  data :: "8 word list option"
  addressTableLookup :: "address_table_lookup option"
  addressTableLookups :: "address_table_lookup list option"

datatype transaction_version = Legacy | V0

datatype requested_version = Auto | Explicit transaction_version

datatype signer_mode = Partial | Send

text \<open>
  A \<^verbatim>\<open>TransactionSigner\<close> is an address with the signing methods it carries; the
  library's \<^verbatim>\<open>isTransactionPartialSigner\<close> and \<^verbatim>\<open>isTransactionSendingSigner\<close> test for
  the \<^verbatim>\<open>signTransactions\<close> and \<^verbatim>\<open>signAndSendTransactions\<close> methods.
\<close>

record transaction_signer =
  signer_address :: address
  has_signTransactions :: bool
  has_modifyAndSignTransactions :: bool
  has_signAndSendTransactions :: bool

definition isTransactionPartialSigner :: "transaction_signer \<Rightarrow> bool" where
  "isTransactionPartialSigner s = has_signTransactions s"

definition isTransactionSendingSigner :: "transaction_signer \<Rightarrow> bool" where
  "isTransactionSendingSigner s = has_signAndSendTransactions s"

text \<open>A wallet session: the account's address and the optional capabilities.\<close>

record wallet_session =
  account_address :: address
  has_sendTransaction :: bool
  has_signMessage :: bool
  has_signTransaction :: bool

text \<open>\<^verbatim>\<open>isWalletSession\<close> is the choice of constructor.\<close>

datatype transaction_authority =
  WalletAuthority wallet_session
  | SignerAuthority transaction_signer

datatype fee_payer = FeePayerAddress string | FeePayerSigner transaction_signer

datatype bigint_or_number = BigintValue int | NumberValue js_number

text \<open>
  The message under construction: version, fee payer (with its signer when one is
  attached), the instructions in order and the lifetime constraint once set.
\<close>

record transaction_message =
  msg_version :: transaction_version
  msg_feePayer :: address
  msg_feePayerSigner :: "transaction_signer option"
  msg_instructions :: "instruction list"
  msg_lifetimeConstraint :: "blockhash_lifetime option"

text \<open>
  \<^verbatim>\<open>TransactionPrepareRequest\<close>. The abort signal is read in the state of the world
  \<open>'w\<close> at each check, since it can fire while the request is suspended.
\<close>

record 'w transaction_prepare_request =
  req_abortSignal :: "('w \<Rightarrow> bool) option"
  req_authority :: "transaction_authority option"
  req_commitment :: "commitment option"
  req_computeUnitLimit :: "bigint_or_number option"
  req_computeUnitPrice :: "bigint_or_number option"
  req_feePayer :: "fee_payer option"
  req_instructions :: "instruction list"
  req_lifetime :: "blockhash_lifetime option"
  req_version :: "requested_version option"

record transaction_prepared =
  prep_commitment :: commitment
  prep_computeUnitLimit :: "int option"
  prep_computeUnitPrice :: "int option"
  prep_feePayer :: address
  prep_instructions :: "instruction list"
  prep_lifetime :: blockhash_lifetime
  prep_message :: transaction_message
  prep_mode :: signer_mode
  prep_version :: transaction_version

record 'w transaction_send_options =
  send_abortSignal :: "('w \<Rightarrow> bool) option"
  send_commitment :: "commitment option"
  send_maxRetries :: "bigint_or_number option"
  send_minContextSlot :: "int option"
  send_skipPreflight :: "bool option"

section \<open>Async state\<close>

datatype async_status = StatusError | Idle | Loading | Success

record 'a async_state =
  state_data :: "'a option"
  state_error :: "error option"
  state_status :: async_status

definition createInitialAsyncState :: "'a async_state" where
  "createInitialAsyncState = \<lparr>state_data = None, state_error = None, state_status = Idle\<rparr>"

definition createAsyncState :: "async_status \<Rightarrow> 'a option \<Rightarrow> error option \<Rightarrow> 'a async_state" where
  "createAsyncState status payload_data payload_error =
     \<lparr>state_data = payload_data, state_error = payload_error, state_status = status\<rparr>"


section \<open>Transaction helper interface\<close>

text \<open>
  The pool controller is handed a \<^verbatim>\<open>TransactionHelper\<close> in its configuration. Each of
  its asynchronous operations is a function of the state of the world \<open>'w\<close> (the chain,
  the wallet, the clock) that returns the settled promise, \<open>Inl\<close> for a rejection, and the
  new state.
\<close>

record 'w prepare_transaction_overrides =
  ovr_computeUnitLimitMultiplier :: "js_number option"
  ovr_computeUnitLimitReset :: "bool option"
  ovr_blockhashReset :: "bool option"
  ovr_logRequest :: "(string \<Rightarrow> 'w \<Rightarrow> 'w) option"

datatype 'w prepare_transaction_setting =
  PrepareTransactionFalse
  | PrepareTransactionOverrides "'w prepare_transaction_overrides"

record 'w transaction_prepare_and_send_request = "'w transaction_prepare_request" +
  req_prepareTransaction :: "'w prepare_transaction_setting option"

record 'w transaction_sign_options =
  sign_abortSignal :: "('w \<Rightarrow> bool) option"
  sign_minContextSlot :: "int option"

record signed_transaction =
  signed_message :: transaction_message
  signatures :: "(address \<times> string) list"

type_synonym ('w, 'a) async = "'w \<Rightarrow> (error + 'a) \<times> 'w"

record 'w transaction_helper =
  helper_prepare :: "'w transaction_prepare_request \<Rightarrow> ('w, transaction_prepared) async"
  helper_sign :: "transaction_prepared \<Rightarrow> 'w transaction_sign_options \<Rightarrow> ('w, signed_transaction) async"
  helper_toWire :: "transaction_prepared \<Rightarrow> 'w transaction_sign_options \<Rightarrow> ('w, string) async"
  helper_send :: "transaction_prepared \<Rightarrow> 'w transaction_send_options \<Rightarrow> ('w, signature) async"
  helper_prepareAndSend ::
    "'w transaction_prepare_and_send_request \<Rightarrow> 'w transaction_send_options option \<Rightarrow> ('w, signature) async"

section \<open>Instruction pool controller\<close>

text \<open>
  \<^verbatim>\<open>createStore\<close>: a snapshot and the set of listeners, kept in insertion order as a
  JavaScript \<^verbatim>\<open>Set\<close> iterates it. A listener is an opaque callback, named by a number;
  that \<^verbatim>\<open>setSnapshot\<close> calls it is recorded in the controller's notification log.
\<close>

type_synonym listener = nat

datatype slice = InstructionsSlice | PreparedSlice | PrepareStateSlice | SendStateSlice

record 'a store =
  snapshot :: 'a
  listeners :: "listener list"

definition createStore :: "'a \<Rightarrow> 'a store" where
  "createStore initial = \<lparr>snapshot = initial, listeners = []\<rparr>"

definition subscribe :: "listener \<Rightarrow> 'a store \<Rightarrow> 'a store" where
  "subscribe l st = st\<lparr>listeners := (if l \<in> set (listeners st) then listeners st else listeners st @ [l])\<rparr>"

definition unsubscribe :: "listener \<Rightarrow> 'a store \<Rightarrow> 'a store" where
  "unsubscribe l st = st\<lparr>listeners := filter (\<lambda>x. x \<noteq> l) (listeners st)\<rparr>"

record latest_blockhash_cache =
  updatedAt :: int
  cache_value :: blockhash_lifetime

record transaction_pool_config =
  cfg_blockhashMaxAgeMs :: "int option"
  cfg_initialInstructions :: "instruction list option"

text \<open>
  The closure state of \<^verbatim>\<open>createTransactionPoolController\<close>. Times are integral
  milliseconds, as \<^verbatim>\<open>Date.now()\<close> returns them.
\<close>

record transaction_pool =
  initialInstructions :: "instruction list"
  blockhashMaxAgeMs :: int
  latestBlockhashCache :: "latest_blockhash_cache option"
  instructionsStore :: "instruction list store"
  preparedStore :: "transaction_prepared option store"
  prepareStateStore :: "transaction_prepared async_state store"
  sendStateStore :: "signature async_state store"
  notifications :: "(slice \<times> listener) list"

definition createTransactionPoolController :: "transaction_pool_config \<Rightarrow> transaction_pool" where
  "createTransactionPoolController config =
     (let initial = (case cfg_initialInstructions config of None \<Rightarrow> [] | Some l \<Rightarrow> l)
      in \<lparr>initialInstructions = initial,
          blockhashMaxAgeMs = (case cfg_blockhashMaxAgeMs config of None \<Rightarrow> 30000 | Some n \<Rightarrow> n),
          latestBlockhashCache = None,
          instructionsStore = createStore initial,
          preparedStore = createStore None,
          prepareStateStore = createStore createInitialAsyncState,
          sendStateStore = createStore createInitialAsyncState,
          notifications = []\<rparr>)"

text \<open>\<^verbatim>\<open>setSnapshot\<close> on each of the four stores: store the value, call every listener.\<close>

definition set_instructions :: "instruction list \<Rightarrow> transaction_pool \<Rightarrow> transaction_pool" where
  "set_instructions next p =
     p\<lparr>instructionsStore := (instructionsStore p)\<lparr>snapshot := next\<rparr>,
       notifications := notifications p @ map (Pair InstructionsSlice) (listeners (instructionsStore p))\<rparr>"

definition set_prepared :: "transaction_prepared option \<Rightarrow> transaction_pool \<Rightarrow> transaction_pool" where
  "set_prepared next p =
     p\<lparr>preparedStore := (preparedStore p)\<lparr>snapshot := next\<rparr>,
       notifications := notifications p @ map (Pair PreparedSlice) (listeners (preparedStore p))\<rparr>"

definition set_prepareState ::
  "transaction_prepared async_state \<Rightarrow> transaction_pool \<Rightarrow> transaction_pool" where
  "set_prepareState next p =
     p\<lparr>prepareStateStore := (prepareStateStore p)\<lparr>snapshot := next\<rparr>,
       notifications := notifications p @ map (Pair PrepareStateSlice) (listeners (prepareStateStore p))\<rparr>"

definition set_sendState :: "signature async_state \<Rightarrow> transaction_pool \<Rightarrow> transaction_pool" where
  "set_sendState next p =
     p\<lparr>sendStateStore := (sendStateStore p)\<lparr>snapshot := next\<rparr>,
       notifications := notifications p @ map (Pair SendStateSlice) (listeners (sendStateStore p))\<rparr>"

definition getInstructions :: "transaction_pool \<Rightarrow> instruction list" where
  "getInstructions p = snapshot (instructionsStore p)"

definition getPrepared :: "transaction_pool \<Rightarrow> transaction_prepared option" where
  "getPrepared p = snapshot (preparedStore p)"

definition getPrepareState :: "transaction_pool \<Rightarrow> transaction_prepared async_state" where
  "getPrepareState p = snapshot (prepareStateStore p)"

definition getSendState :: "transaction_pool \<Rightarrow> signature async_state" where
  "getSendState p = snapshot (sendStateStore p)"

definition resetDerivedState :: "transaction_pool \<Rightarrow> transaction_pool" where
  "resetDerivedState p =
     set_sendState createInitialAsyncState
       (set_prepareState createInitialAsyncState (set_prepared None p))"

definition commitInstructions :: "instruction list \<Rightarrow> transaction_pool \<Rightarrow> transaction_pool" where
  "commitInstructions next p = resetDerivedState (set_instructions next p)"

definition addInstruction :: "instruction \<Rightarrow> transaction_pool \<Rightarrow> transaction_pool" where
  "addInstruction i p = commitInstructions (getInstructions p @ [i]) p"

definition addInstructions :: "instruction list \<Rightarrow> transaction_pool \<Rightarrow> transaction_pool" where
  "addInstructions instructionSet p =
     (if length instructionSet = 0 then p
      else commitInstructions (getInstructions p @ instructionSet) p)"

definition replaceInstructions :: "instruction list \<Rightarrow> transaction_pool \<Rightarrow> transaction_pool" where
  "replaceInstructions instructionSet p = commitInstructions instructionSet p"

definition clearInstructions :: "transaction_pool \<Rightarrow> transaction_pool" where
  "clearInstructions p = commitInstructions [] p"

text \<open>The index is an integral \<^verbatim>\<open>number\<close>; the filter keeps every position but that one.\<close>

definition removeInstruction :: "int \<Rightarrow> transaction_pool \<Rightarrow> transaction_pool" where
  "removeInstruction index p =
     (let current = getInstructions p
      in if index < 0 \<or> int (length current) \<le> index then p
         else commitInstructions
                (map snd (filter (\<lambda>(ii, _). int ii \<noteq> index) (enumerate 0 current))) p)"

definition reset :: "transaction_pool \<Rightarrow> transaction_pool" where
  "reset p = commitInstructions (initialInstructions p) p"

definition ensureInstructions :: "instruction list \<Rightarrow> error + unit" where
  "ensureInstructions instructionList =
     (if length instructionList = 0
      then Inl (Error ''Add at least one instruction before preparing a transaction.'')
      else Inr ())"

definition resolveCachedLifetime :: "int \<Rightarrow> transaction_pool \<Rightarrow> blockhash_lifetime option" where
  "resolveCachedLifetime now p =
     (case latestBlockhashCache p of
        None \<Rightarrow> None
      | Some c \<Rightarrow> if blockhashMaxAgeMs p < now - updatedAt c then None else Some (cache_value c))"

definition setLatestBlockhashCache ::
  "latest_blockhash_cache option \<Rightarrow> transaction_pool \<Rightarrow> transaction_pool" where
  "setLatestBlockhashCache c p = p\<lparr>latestBlockhashCache := c\<rparr>"

definition subscribeInstructions :: "listener \<Rightarrow> transaction_pool \<Rightarrow> transaction_pool" where
  "subscribeInstructions l p = p\<lparr>instructionsStore := subscribe l (instructionsStore p)\<rparr>"

definition subscribePrepared :: "listener \<Rightarrow> transaction_pool \<Rightarrow> transaction_pool" where
  "subscribePrepared l p = p\<lparr>preparedStore := subscribe l (preparedStore p)\<rparr>"

definition subscribePrepareState :: "listener \<Rightarrow> transaction_pool \<Rightarrow> transaction_pool" where
  "subscribePrepareState l p = p\<lparr>prepareStateStore := subscribe l (prepareStateStore p)\<rparr>"

definition subscribeSendState :: "listener \<Rightarrow> transaction_pool \<Rightarrow> transaction_pool" where
  "subscribeSendState l p = p\<lparr>sendStateStore := subscribe l (sendStateStore p)\<rparr>"

text \<open>
  The options of the controller's \<^verbatim>\<open>prepare\<close> and \<^verbatim>\<open>prepareAndSend\<close>: the request
  fields, every one optional, the instructions too.
\<close>

record 'w transaction_pool_prepare_options =
  opt_abortSignal :: "('w \<Rightarrow> bool) option"
  opt_authority :: "transaction_authority option"
  opt_commitment :: "commitment option"
  opt_computeUnitLimit :: "bigint_or_number option"
  opt_computeUnitPrice :: "bigint_or_number option"
  opt_feePayer :: "fee_payer option"
  opt_instructions :: "instruction list option"
  opt_lifetime :: "blockhash_lifetime option"
  opt_version :: "requested_version option"

record 'w transaction_pool_prepare_and_send_options = "'w transaction_pool_prepare_options" +
  opt_prepareTransaction :: "'w prepare_transaction_setting option"

text \<open>\<^verbatim>\<open>{ ...rest, lifetime, instructions: nextInstructions }\<close>\<close>

definition helper_request ::
  "('w, 'x) transaction_pool_prepare_options_scheme \<Rightarrow> blockhash_lifetime option \<Rightarrow> instruction list
     \<Rightarrow> 'w transaction_prepare_request" where
  "helper_request rest lifetime nextInstructions =
     \<lparr>req_abortSignal = opt_abortSignal rest,
      req_authority = opt_authority rest,
      req_commitment = opt_commitment rest,
      req_computeUnitLimit = opt_computeUnitLimit rest,
      req_computeUnitPrice = opt_computeUnitPrice rest,
      req_feePayer = opt_feePayer rest,
      req_instructions = nextInstructions,
      req_lifetime = lifetime,
      req_version = opt_version rest\<rparr>"

text \<open>
  The lifetime \<^verbatim>\<open>prepare\<close> hands to the helper:
  \<^verbatim>\<open>cachedLifetime = rest.lifetime ?? resolveCachedLifetime()\<close>, then
  \<^verbatim>\<open>cachedLifetime && !rest.lifetime ? { ...rest, lifetime: cachedLifetime } : rest\<close>.
\<close>

definition prepare_lifetime ::
  "int \<Rightarrow> ('w, 'x) transaction_pool_prepare_options_scheme \<Rightarrow> transaction_pool
     \<Rightarrow> blockhash_lifetime option" where
  "prepare_lifetime now rest p =
     (let cachedLifetime = (case opt_lifetime rest of Some l \<Rightarrow> Some l | None \<Rightarrow> resolveCachedLifetime now p)
      in if cachedLifetime \<noteq> None \<and> opt_lifetime rest = None then cachedLifetime
         else opt_lifetime rest)"

text \<open>\<^verbatim>\<open>resolveLifetimeOptions\<close>, used by \<^verbatim>\<open>prepareAndSend\<close>: the lifetime of its result.\<close>

definition resolveLifetimeOptions ::
  "int \<Rightarrow> ('w, 'x) transaction_pool_prepare_options_scheme \<Rightarrow> transaction_pool
     \<Rightarrow> blockhash_lifetime option" where
  "resolveLifetimeOptions now options p =
     (if opt_lifetime options \<noteq> None then opt_lifetime options
      else let cachedLifetime = resolveCachedLifetime now p
           in if cachedLifetime = None then opt_lifetime options else cachedLifetime)"

text \<open>
  \<^verbatim>\<open>prepare\<close> runs in two steps, the suspension at \<^verbatim>\<open>await helper.prepare(...)\<close> between
  them. \<open>prepare_begin\<close> is the part before it: the check of the instructions, the loading
  state, the request for the helper (with the time \<open>now\<close> that \<^verbatim>\<open>Date.now()\<close> returns).
  \<open>prepare_settle\<close> is the part after it, on the helper's settled promise.
\<close>

definition prepare_begin ::
  "int \<Rightarrow> 'w transaction_pool_prepare_options \<Rightarrow> transaction_pool
     \<Rightarrow> (error + 'w transaction_prepare_request) \<times> transaction_pool" where
  "prepare_begin now options p =
     (let nextInstructions = (case opt_instructions options of None \<Rightarrow> getInstructions p | Some l \<Rightarrow> l)
      in case ensureInstructions nextInstructions of
           Inl e \<Rightarrow> (Inl e, p)
         | Inr _ \<Rightarrow>
             (Inr (helper_request options (prepare_lifetime now options p) nextInstructions),
              set_prepareState (createAsyncState Loading None None) p))"

definition prepare_settle ::
  "error + transaction_prepared \<Rightarrow> transaction_pool
     \<Rightarrow> (error + transaction_prepared) \<times> transaction_pool" where
  "prepare_settle r p =
     (case r of
        Inr prepared \<Rightarrow>
          (Inr prepared,
           set_prepareState (createAsyncState Success (Some prepared) None)
             (set_prepared (Some prepared) p))
      | Inl e \<Rightarrow> (Inl e, set_prepareState (createAsyncState StatusError None (Some e)) p))"

definition prepare ::
  "'w transaction_helper \<Rightarrow> int \<Rightarrow> 'w transaction_pool_prepare_options
     \<Rightarrow> transaction_pool \<times> 'w \<Rightarrow> (error + transaction_prepared) \<times> (transaction_pool \<times> 'w)" where
  "prepare helper now options s =
     (case prepare_begin now options (fst s) of
        (Inl e, p) \<Rightarrow> (Inl e, (p, snd s))
      | (Inr request, p) \<Rightarrow>
          (case helper_prepare helper request (snd s) of
             (r, w) \<Rightarrow> (case prepare_settle r p of (out, p') \<Rightarrow> (out, (p', w)))))"

definition resolvePrepared ::
  "transaction_prepared option \<Rightarrow> transaction_pool \<Rightarrow> error + transaction_prepared" where
  "resolvePrepared override p =
     (case (case override of Some t \<Rightarrow> Some t | None \<Rightarrow> getPrepared p) of
        None \<Rightarrow> Inl (Error ''Prepare a transaction before sending.'')
      | Some target \<Rightarrow> Inr target)"

definition send_settle ::
  "error + signature \<Rightarrow> transaction_pool \<Rightarrow> (error + signature) \<times> transaction_pool" where
  "send_settle r p =
     (case r of
        Inr sig \<Rightarrow> (Inr sig, set_sendState (createAsyncState Success (Some sig) None) p)
      | Inl e \<Rightarrow> (Inl e, set_sendState (createAsyncState StatusError None (Some e)) p))"

definition send ::
  "'w transaction_helper \<Rightarrow> transaction_prepared option \<Rightarrow> 'w transaction_send_options
     \<Rightarrow> transaction_pool \<times> 'w \<Rightarrow> (error + signature) \<times> (transaction_pool \<times> 'w)" where
  "send helper overridePrepared rest s =
     (case resolvePrepared overridePrepared (fst s) of
        Inl e \<Rightarrow> (Inl e, s)
      | Inr target \<Rightarrow>
          (let p = set_sendState (createAsyncState Loading None None) (fst s)
           in case helper_send helper target rest (snd s) of
                (r, w) \<Rightarrow> (case send_settle r p of (out, p') \<Rightarrow> (out, (p', w)))))"

definition prepareAndSend_begin ::
  "int \<Rightarrow> 'w transaction_pool_prepare_and_send_options \<Rightarrow> transaction_pool
     \<Rightarrow> (error + 'w transaction_prepare_and_send_request) \<times> transaction_pool" where
  "prepareAndSend_begin now request p =
     (let nextInstructions = (case opt_instructions request of None \<Rightarrow> getInstructions p | Some l \<Rightarrow> l)
      in case ensureInstructions nextInstructions of
           Inl e \<Rightarrow> (Inl e, p)
         | Inr _ \<Rightarrow>
             (Inr (transaction_prepare_request.extend
                     (helper_request request (resolveLifetimeOptions now request p) nextInstructions)
                     (transaction_prepare_and_send_request.fields (opt_prepareTransaction request))),
              set_sendState (createAsyncState Loading None None) p))"

definition prepareAndSend ::
  "'w transaction_helper \<Rightarrow> int \<Rightarrow> 'w transaction_pool_prepare_and_send_options
     \<Rightarrow> 'w transaction_send_options option
     \<Rightarrow> transaction_pool \<times> 'w \<Rightarrow> (error + signature) \<times> (transaction_pool \<times> 'w)" where
  "prepareAndSend helper now request sendOptions s =
     (case prepareAndSend_begin now request (fst s) of
        (Inl e, p) \<Rightarrow> (Inl e, (p, snd s))
      | (Inr helperRequest, p) \<Rightarrow>
          (case helper_prepareAndSend helper helperRequest sendOptions (snd s) of
             (r, w) \<Rightarrow> (case send_settle r p of (out, p') \<Rightarrow> (out, (p', w)))))"



subsection \<open>Sequences of controller calls\<close>

datatype 'w pool_call =
  AddInstruction instruction
  | AddInstructions "instruction list"
  | RemoveInstruction int
  | ReplaceInstructions "instruction list"
  | ClearInstructions
  | Reset
  | Prepare int "'w transaction_pool_prepare_options"
  | SendPrepared "transaction_prepared option" "'w transaction_send_options"
  | PrepareAndSend int "'w transaction_pool_prepare_and_send_options" "'w transaction_send_options option"
  | SetLatestBlockhashCache "latest_blockhash_cache option"

definition call ::
  "'w transaction_helper \<Rightarrow> 'w pool_call \<Rightarrow> transaction_pool \<times> 'w \<Rightarrow> transaction_pool \<times> 'w" where
  "call helper c s =
     (case c of
        AddInstruction i \<Rightarrow> (addInstruction i (fst s), snd s)
      | AddInstructions l \<Rightarrow> (addInstructions l (fst s), snd s)
      | RemoveInstruction index \<Rightarrow> (removeInstruction index (fst s), snd s)
      | ReplaceInstructions l \<Rightarrow> (replaceInstructions l (fst s), snd s)
      | ClearInstructions \<Rightarrow> (clearInstructions (fst s), snd s)
      | Reset \<Rightarrow> (reset (fst s), snd s)
      | Prepare now options \<Rightarrow> snd (prepare helper now options s)
      | SendPrepared override rest \<Rightarrow> snd (send helper override rest s)
      | PrepareAndSend now request sendOptions \<Rightarrow> snd (prepareAndSend helper now request sendOptions s)
      | SetLatestBlockhashCache c \<Rightarrow> (setLatestBlockhashCache c (fst s), snd s))"

definition calls ::
  "'w transaction_helper \<Rightarrow> 'w pool_call list \<Rightarrow> transaction_pool \<times> 'w \<Rightarrow> transaction_pool \<times> 'w" where
  "calls helper cs s = foldl (\<lambda>s c. call helper c s) s cs"

text \<open>The six instruction mutations, and those of them that get past their guard.\<close>

definition is_mutation :: "'w pool_call \<Rightarrow> bool" where
  "is_mutation c =
     (case c of Prepare _ _ \<Rightarrow> False | SendPrepared _ _ \<Rightarrow> False | PrepareAndSend _ _ _ \<Rightarrow> False
      | SetLatestBlockhashCache _ \<Rightarrow> False
      | _ \<Rightarrow> True)"

definition commits :: "'w pool_call \<Rightarrow> transaction_pool \<Rightarrow> bool" where
  "commits c p =
     (case c of
        AddInstructions l \<Rightarrow> l \<noteq> []
      | RemoveInstruction index \<Rightarrow> 0 \<le> index \<and> index < int (length (getInstructions p))
      | _ \<Rightarrow> is_mutation c)"

section \<open>Amount math\<close>

subsection \<open>Strings and bigints\<close>

text \<open>
  A string is the list of its code units; the inputs in question are ASCII. \<open>is_digit\<close> is
  the class \<^verbatim>\<open>\d\<close>, \<open>is_nonzero_digit\<close> the class \<^verbatim>\<open>[1-9]\<close>, \<open>is_space\<close> what
  \<^verbatim>\<open>String.prototype.trim\<close> strips (among the code units below 256).
\<close>

definition is_digit :: "char \<Rightarrow> bool" where
  "is_digit c = (48 \<le> (of_char c :: nat) \<and> (of_char c :: nat) \<le> 57)"

definition is_nonzero_digit :: "char \<Rightarrow> bool" where
  "is_nonzero_digit c = (49 \<le> (of_char c :: nat) \<and> (of_char c :: nat) \<le> 57)"

definition is_space :: "char \<Rightarrow> bool" where
  "is_space c = ((of_char c :: nat) \<in> {9, 10, 11, 12, 13, 32, 160})"

definition trim :: "string \<Rightarrow> string" where
  "trim s = rev (dropWhile is_space (rev (dropWhile is_space s)))"

text \<open>\<^verbatim>\<open>s.split(c)\<close> for a one-character separator.\<close>

fun split_on :: "char \<Rightarrow> string \<Rightarrow> string list" where
  "split_on c [] = [[]]"
| "split_on c (x # xs) =
     (if x = c then [] # split_on c xs
      else (x # hd (split_on c xs)) # tl (split_on c xs))"

definition padEnd :: "nat \<Rightarrow> char \<Rightarrow> string \<Rightarrow> string" where
  "padEnd n c s = s @ replicate (n - length s) c"

definition padStart :: "nat \<Rightarrow> char \<Rightarrow> string \<Rightarrow> string" where
  "padStart n c s = replicate (n - length s) c @ s"

text \<open>\<^verbatim>\<open>BigInt(s)\<close> on a string of decimal digits (the empty string gives \<open>0n\<close>).\<close>

definition digit_value :: "char \<Rightarrow> int" where
  "digit_value c = int (of_char c) - 48"

definition BigInt_of_digits :: "string \<Rightarrow> int" where
  "BigInt_of_digits s = foldl (\<lambda>acc c. acc * 10 + digit_value c) 0 s"

text \<open>\<^verbatim>\<open>b.toString()\<close> for a bigint \<open>b\<close>.\<close>

definition digit_char :: "nat \<Rightarrow> char" where
  "digit_char d = char_of (48 + d)"

fun digits_of_nat :: "nat \<Rightarrow> string" where
  "digits_of_nat n =
     (if n < 10 then [digit_char n] else digits_of_nat (n div 10) @ [digit_char (n mod 10)])"

declare digits_of_nat.simps [simp del]

definition bigint_toString :: "int \<Rightarrow> string" where
  "bigint_toString b = (if b < 0 then CHR ''-'' # digits_of_nat (nat (- b)) else digits_of_nat (nat b))"

text \<open>Bigint division and remainder truncate towards zero; a zero divisor throws.\<close>

definition bigint_div :: "int \<Rightarrow> int \<Rightarrow> error + int" where
  "bigint_div a b =
     (if b = 0 then Inl (RangeError ''Division by zero'') else Inr (sgn a * sgn b * (\<bar>a\<bar> div \<bar>b\<bar>)))"

definition bigint_rem :: "int \<Rightarrow> int \<Rightarrow> error + int" where
  "bigint_rem a b =
     (if b = 0 then Inl (RangeError ''Division by zero'') else Inr (sgn a * (\<bar>a\<bar> mod \<bar>b\<bar>)))"

subsection \<open>math.ts\<close>

datatype bigint_like = BigintOf int | NumberOf js_number | StringOf string

definition assertNonNegative :: "int \<Rightarrow> string \<Rightarrow> error + unit" where
  "assertNonNegative v label =
     (if v < 0 then Inl (RangeError (label @ '' must be non-negative'')) else Inr ())"

text \<open>The decimals are an integral \<^verbatim>\<open>number\<close>.\<close>

definition assertDecimals :: "int \<Rightarrow> string \<Rightarrow> error + unit" where
  "assertDecimals decimals label =
     (if decimals < 0 \<or> 38 < decimals
      then Inl (RangeError (label @ '' must be an integer between 0 and 38''))
      else Inr ())"

definition pow10 :: "int \<Rightarrow> error + int" where
  "pow10 exponent =
     (case assertDecimals exponent ''exponent'' of
        Inl e \<Rightarrow> Inl e
      | Inr _ \<Rightarrow> Inr (10 ^ nat exponent))"

definition isSafeInteger :: "js_number \<Rightarrow> bool" where
  "isSafeInteger x =
     (case BigInt_of_number x of Inl _ \<Rightarrow> False | Inr v \<Rightarrow> \<bar>v\<bar> \<le> 2 ^ 53 - 1)"

definition isInteger :: "js_number \<Rightarrow> bool" where
  "isInteger x = (case BigInt_of_number x of Inl _ \<Rightarrow> False | Inr _ \<Rightarrow> True)"

text \<open>The match of \<^verbatim>\<open>/^[-+]?\d+$/\<close>, read as a bigint.\<close>

definition signed_integer_string :: "string \<Rightarrow> int option" where
  "signed_integer_string s =
     (let body = (case s of c # r \<Rightarrow> if c = CHR ''-'' \<or> c = CHR ''+'' then r else s | [] \<Rightarrow> s)
      in if body \<noteq> [] \<and> list_all is_digit body
         then Some (if s \<noteq> [] \<and> hd s = CHR ''-'' then - BigInt_of_digits body else BigInt_of_digits body)
         else None)"

definition toBigint :: "bigint_like \<Rightarrow> string \<Rightarrow> error + int" where
  "toBigint v label =
     (case v of
        BigintOf b \<Rightarrow> Inr b
      | NumberOf x \<Rightarrow>
          (if \<not> isInteger x
           then Inl (RangeError (label @ '' must be a finite integer when provided as a number''))
           else if \<not> isSafeInteger x
           then Inl (RangeError (label @ '' must be within the safe integer range when provided as a number''))
           else BigInt_of_number x)
      | StringOf s \<Rightarrow>
          (case signed_integer_string (trim s) of
             None \<Rightarrow> Inl (SyntaxError (label @ '' must be an integer string''))
           | Some b \<Rightarrow> Inr b))"

subsection \<open>amounts.ts\<close>

datatype rounding_mode = Ceil | Floor | Round

record parse_amount_options =
  parse_label :: "string option"
  parse_rounding :: "rounding_mode option"

record format_amount_options =
  minimumFractionDigits :: "int option"
  trimTrailingZeros :: "bool option"

text \<open>\<^verbatim>\<open>DECIMAL_PATTERN = /^\d+(?:\.\d+)?$/\<close>\<close>

definition DECIMAL_PATTERN_test :: "string \<Rightarrow> bool" where
  "DECIMAL_PATTERN_test s =
     (takeWhile is_digit s \<noteq> [] \<and>
      (case dropWhile is_digit s of
         [] \<Rightarrow> True
       | c # fraction \<Rightarrow> c = CHR ''.'' \<and> fraction \<noteq> [] \<and> list_all is_digit fraction))"

text \<open>
  \<^verbatim>\<open>normalizeNumberInput\<close> prints the number with \<^verbatim>\<open>value.toString(10)\<close>, the shortest
  decimal that reads back as the same double; the printed form \<open>printed\<close> comes with the
  number.
\<close>

definition normalizeNumberInput ::
  "js_number \<Rightarrow> string \<Rightarrow> nat \<Rightarrow> string \<Rightarrow> error + string" where
  "normalizeNumberInput v printed decimals label =
     (if (case v of Finite _ _ \<Rightarrow> False | _ \<Rightarrow> True)
      then Inl (RangeError (label @ '' must be a finite number''))
      else if isInteger v then Inr printed
      else let stringValue = printed
           in if CHR ''e'' \<in> set stringValue \<or> CHR ''E'' \<in> set stringValue
              then Inl (RangeError (label @ '' cannot use exponential notation; provide a string instead''))
              else (case split_on CHR ''.'' stringValue of
                      _ # part # _ \<Rightarrow>
                        if part \<noteq> [] \<and> decimals + 6 < length part
                        then Inl (RangeError (label @ '' exceeds safe precision; provide a string instead''))
                        else Inr stringValue
                    | _ \<Rightarrow> Inr stringValue))"

definition decimalToBaseUnits ::
  "string \<Rightarrow> nat \<Rightarrow> int \<Rightarrow> parse_amount_options \<Rightarrow> error + int" where
  "decimalToBaseUnits v decimals scale options =
     (let label = (case parse_label options of None \<Rightarrow> ''value'' | Some l \<Rightarrow> l);
          rounding = (case parse_rounding options of None \<Rightarrow> Floor | Some r \<Rightarrow> r);
          sanitized = trim (filter (\<lambda>c. c \<noteq> CHR ''_'') v)
      in if sanitized = [] then Inl (SyntaxError (label @ '' must not be empty''))
         else if \<not> DECIMAL_PATTERN_test sanitized
         then Inl (SyntaxError (label @ '' must be a non-negative decimal string''))
         else
           let parts = split_on CHR ''.'' sanitized;
               integerPartRaw = hd parts;
               fractionalRaw = (case parts of _ # f # _ \<Rightarrow> Some f | _ \<Rightarrow> None);
               integerPart = (if integerPartRaw = [] then ''0'' else integerPartRaw)
           in case assertNonNegative (BigInt_of_digits integerPart) label of
                Inl e \<Rightarrow> Inl e
              | Inr _ \<Rightarrow>
                  let result = BigInt_of_digits integerPart * scale;
                      fractionalDigits = (case fractionalRaw of None \<Rightarrow> [] | Some f \<Rightarrow> f)
                  in if decimals = 0
                     then (if length fractionalDigits = 0 then Inr result
                           else let hasFractional = list_ex is_nonzero_digit fractionalDigits
                                in if rounding = Ceil \<and> hasFractional then Inr (result + 1)
                                   else if rounding = Round \<and> fractionalDigits \<noteq> [] \<and>
                                           (53::nat) \<le> of_char (hd fractionalDigits)
                                   then Inr (result + 1)
                                   else Inr result)
                     else
                       let truncatedFractional = padEnd decimals CHR ''0'' (take decimals fractionalDigits);
                           fractionalComponent =
                             (if truncatedFractional = [] then 0 else BigInt_of_digits truncatedFractional);
                           result = result + fractionalComponent
                       in if decimals < length fractionalDigits
                          then let remainderDigits = drop decimals fractionalDigits;
                                   hasRemainder = list_ex is_nonzero_digit remainderDigits
                               in if rounding = Ceil \<and> hasRemainder then Inr (result + 1)
                                  else if rounding = Round
                                  then (if remainderDigits \<noteq> [] \<and> (53::nat) \<le> of_char (hd remainderDigits)
                                        then Inr (result + 1) else Inr result)
                                  else Inr result
                          else Inr result)"

definition formatBaseUnits ::
  "int \<Rightarrow> nat \<Rightarrow> int \<Rightarrow> format_amount_options \<Rightarrow> error + string" where
  "formatBaseUnits amount decimals scale options =
     (case assertNonNegative amount ''amount'' of
        Inl e \<Rightarrow> Inl e
      | Inr _ \<Rightarrow>
          let minimumFractionDigits = (case minimumFractionDigits options of None \<Rightarrow> 0 | Some m \<Rightarrow> m)
          in if minimumFractionDigits < 0 \<or> int decimals < minimumFractionDigits
             then Inl (RangeError ''minimumFractionDigits must be between 0 and the token decimals'')
             else
               let trimTrailingZeros = (case trimTrailingZeros options of None \<Rightarrow> True | Some t \<Rightarrow> t)
               in if decimals = 0 then Inr (bigint_toString amount)
                  else (case bigint_div amount scale of
                          Inl e \<Rightarrow> Inl e
                        | Inr whole \<Rightarrow>
                            (case bigint_rem amount scale of
                               Inl e \<Rightarrow> Inl e
                             | Inr remainder \<Rightarrow>
                                 let fraction = padStart decimals CHR ''0'' (bigint_toString remainder);
                                     fraction = (if trimTrailingZeros
                                                 then rev (dropWhile (\<lambda>c. c = CHR ''0'') (rev fraction))
                                                 else fraction);
                                     fraction = (if int (length fraction) < minimumFractionDigits
                                                 then padEnd (nat minimumFractionDigits) CHR ''0'' fraction
                                                 else fraction)
                                 in if length fraction = 0 then Inr (bigint_toString whole)
                                    else Inr (bigint_toString whole @ ''.'' @ fraction))))"

text \<open>\<^verbatim>\<open>createTokenAmount\<close>: the helper object is its decimals and its scale.\<close>

record token_amount_math =
  tam_decimals :: nat
  tam_scale :: int

definition createTokenAmount :: "int \<Rightarrow> error + token_amount_math" where
  "createTokenAmount decimals =
     (case assertDecimals decimals ''decimals'' of
        Inl e \<Rightarrow> Inl e
      | Inr _ \<Rightarrow>
          (case pow10 decimals of
             Inl e \<Rightarrow> Inl e
           | Inr scale \<Rightarrow> Inr \<lparr>tam_decimals = nat decimals, tam_scale = scale\<rparr>))"

definition fromBaseUnits :: "bigint_like \<Rightarrow> string option \<Rightarrow> error + int" where
  "fromBaseUnits v label =
     (let l = (case label of None \<Rightarrow> ''amount'' | Some l \<Rightarrow> l)
      in case toBigint v l of
           Inl e \<Rightarrow> Inl e
         | Inr amount \<Rightarrow> (case assertNonNegative amount l of Inl e \<Rightarrow> Inl e | Inr _ \<Rightarrow> Inr amount))"

text \<open>
  The argument of \<^verbatim>\<open>fromDecimal\<close>: a string, or a number together with what
  \<^verbatim>\<open>toString(10)\<close> prints for it.
\<close>

datatype decimal_input = DecimalNumber js_number string | DecimalString string

definition fromDecimal ::
  "token_amount_math \<Rightarrow> decimal_input \<Rightarrow> parse_amount_options \<Rightarrow> error + int" where
  "fromDecimal tm v options =
     (let label = (case parse_label options of None \<Rightarrow> ''value'' | Some l \<Rightarrow> l)
      in case v of
           DecimalNumber x printed \<Rightarrow>
             (if isInteger x
              then (if \<not> isSafeInteger x
                    then Inl (RangeError (label @ '' must be within the safe integer range when provided as a number''))
                    else (case BigInt_of_number x of
                            Inl e \<Rightarrow> Inl e
                          | Inr b \<Rightarrow> fromBaseUnits (BigintOf (b * tam_scale tm)) (Some label)))
              else if tam_decimals tm = 0
              then Inl (RangeError (label @ '' cannot include fractional digits for a token with 0 decimals''))
              else (case normalizeNumberInput x printed (tam_decimals tm) label of
                      Inl e \<Rightarrow> Inl e
                    | Inr normalized \<Rightarrow>
                        decimalToBaseUnits normalized (tam_decimals tm) (tam_scale tm) options))
         | DecimalString s \<Rightarrow> decimalToBaseUnits s (tam_decimals tm) (tam_scale tm) options)"

definition toDecimalString ::
  "token_amount_math \<Rightarrow> int \<Rightarrow> format_amount_options \<Rightarrow> error + string" where
  "toDecimalString tm amount options =
     (case fromBaseUnits (BigintOf amount) None of
        Inl e \<Rightarrow> Inl e
      | Inr a \<Rightarrow> formatBaseUnits a (tam_decimals tm) (tam_scale tm) options)"

subsection \<open>The rounding rule in the words of the specification\<close>

text \<open>
  For an input with integer digits \<open>ip\<close> and fractional digits \<open>fd\<close>: the base units
  after truncation to \<open>d\<close> fractional digits are the number written by \<open>ip\<close> followed by
  the first \<open>d\<close> digits of \<open>fd\<close>, zero-padded to \<open>d\<close>. The digits truncated away are
  \<open>drop d fd\<close>; \<open>rounds_up\<close> says when one base unit is added.
\<close>

definition truncated_units :: "string \<Rightarrow> string \<Rightarrow> nat \<Rightarrow> int" where
  "truncated_units ip fd d = BigInt_of_digits (ip @ take d fd @ replicate (d - length fd) CHR ''0'')"

definition rounds_up :: "rounding_mode \<Rightarrow> string \<Rightarrow> bool" where
  "rounds_up mode remainder =
     (case mode of
        Floor \<Rightarrow> False
      | Ceil \<Rightarrow> (\<exists>c \<in> set remainder. c \<noteq> CHR ''0'')
      | Round \<Rightarrow> remainder \<noteq> [] \<and> 5 \<le> digit_value (hd remainder))"

text \<open>
  A canonical decimal string: integer digits without a superfluous leading zero, and at
  most \<open>d\<close> fractional digits, the last of them not a zero.
\<close>

definition canonical_decimal :: "nat \<Rightarrow> string \<Rightarrow> string \<Rightarrow> bool" where
  "canonical_decimal d ip fd =
     (ip \<noteq> [] \<and> list_all is_digit ip \<and> list_all is_digit fd \<and>
      (ip = ''0'' \<or> hd ip \<noteq> CHR ''0'') \<and> length fd \<le> d \<and> (fd = [] \<or> last fd \<noteq> CHR ''0''))"

section \<open>Runtime and library interface\<close>

text \<open>
  What the transaction code calls and this repository does not define: the RPC methods
  of the runtime, asynchronous functions of the state of the world, and the functions
  of \<^verbatim>\<open>@solana/kit\<close> and the program clients. None of them is interpreted; each may
  fail, where the library throws.
\<close>

record simulate_config =
  sim_encoding :: string
  sim_replaceRecentBlockhash :: bool
  sim_sigVerify :: bool

record simulate_value =
  unitsConsumed :: "int option"
  sim_logs :: "string list option"

record send_transaction_config =
  stc_encoding :: string
  stc_maxRetries :: "int option"
  stc_preflightCommitment :: "commitment option"
  stc_skipPreflight :: "bool option"

record 'w runtime =
  rpc_getLatestBlockhash :: "commitment option \<Rightarrow> ('w \<Rightarrow> bool) option \<Rightarrow> ('w, blockhash_lifetime) async"
  rpc_simulateTransaction :: "string \<Rightarrow> simulate_config \<Rightarrow> ('w, simulate_value) async"
  rpc_sendTransaction ::
    "string \<Rightarrow> send_transaction_config \<Rightarrow> ('w \<Rightarrow> bool) option \<Rightarrow> ('w, string) async"
  getFallbackCommitment :: "'w \<Rightarrow> commitment"
  parseAddress :: "string \<Rightarrow> error + address"
  getSetComputeUnitLimitInstruction :: "js_number \<Rightarrow> error + instruction"
  getSetComputeUnitPriceInstruction :: "js_number \<Rightarrow> error + instruction"
  signTransactionMessageWithSigners ::
    "transaction_message \<Rightarrow> 'w transaction_sign_options \<Rightarrow> ('w, signed_transaction) async"
  signAndSendTransactionMessageWithSigners ::
    "transaction_message \<Rightarrow> 'w transaction_sign_options \<Rightarrow> ('w, 8 word list) async"
  compileTransaction :: "transaction_message \<Rightarrow> error + signed_transaction"
  getBase64EncodedWireTransaction :: "signed_transaction \<Rightarrow> string"
  base58_decode :: "8 word list \<Rightarrow> string"
  parseSignature :: "string \<Rightarrow> error + signature"

text \<open>\<^verbatim>\<open>signal?.throwIfAborted()\<close> in the world \<open>w\<close>.\<close>

definition throwIfAborted :: "('w \<Rightarrow> bool) option \<Rightarrow> 'w \<Rightarrow> error + unit" where
  "throwIfAborted signal w =
     (case signal of None \<Rightarrow> Inr () | Some aborted \<Rightarrow> if aborted w then Inl AbortError else Inr ())"

section \<open>Signer resolution\<close>

definition createWalletTransactionSigner ::
  "wallet_session \<Rightarrow> commitment option \<Rightarrow> error + (signer_mode \<times> transaction_signer)" where
  "createWalletTransactionSigner session commitment =
     (if has_signTransaction session
      then Inr (Partial,
                \<lparr>signer_address = account_address session, has_signTransactions = True,
                 has_modifyAndSignTransactions = True, has_signAndSendTransactions = False\<rparr>)
      else if has_sendTransaction session
      then Inr (Send,
                \<lparr>signer_address = account_address session, has_signTransactions = False,
                 has_modifyAndSignTransactions = False, has_signAndSendTransactions = True\<rparr>)
      else Inl (Error ''Wallet session does not support signing or sending transactions.''))"

definition resolveSignerMode :: "transaction_signer \<Rightarrow> signer_mode" where
  "resolveSignerMode signer =
     (if isTransactionPartialSigner signer then Partial
      else if isTransactionSendingSigner signer then Send
      else Partial)"

section \<open>Transaction preparation\<close>

definition COMPUTE_BUDGET_PROGRAM_ADDRESS :: address where
  "COMPUTE_BUDGET_PROGRAM_ADDRESS = ''ComputeBudget111111111111111111111111111111''"

text \<open>\<^verbatim>\<open>instruction.data[0] === tag\<close>, false when there is no data or no first byte.\<close>

definition first_data_byte_is :: "8 word \<Rightarrow> instruction \<Rightarrow> bool" where
  "first_data_byte_is tag i = (case data i of Some (b # _) \<Rightarrow> b = tag | _ \<Rightarrow> False)"

definition hasSetComputeUnitLimitInstruction :: "instruction list \<Rightarrow> bool" where
  "hasSetComputeUnitLimitInstruction instructions =
     list_ex (\<lambda>i. programAddress i = COMPUTE_BUDGET_PROGRAM_ADDRESS \<and> data i \<noteq> None \<and>
                   first_data_byte_is 2 i) instructions"

definition hasSetComputeUnitPriceInstruction :: "instruction list \<Rightarrow> bool" where
  "hasSetComputeUnitPriceInstruction instructions =
     list_ex (\<lambda>i. programAddress i = COMPUTE_BUDGET_PROGRAM_ADDRESS \<and> data i \<noteq> None \<and>
                   first_data_byte_is 3 i) instructions"

definition instructionUsesAddressLookup :: "instruction \<Rightarrow> bool" where
  "instructionUsesAddressLookup i =
     (if addressTableLookup i \<noteq> None then True
      else if (case addressTableLookups i of None \<Rightarrow> False | Some l \<Rightarrow> 0 < length l) then True
      else False)"

text \<open>
  Truthiness of the requested version, as \<^verbatim>\<open>requested && ...\<close> tests it: \<^verbatim>\<open>undefined\<close>
  and the number \<^verbatim>\<open>0\<close> are falsy, the strings \<^verbatim>\<open>'auto'\<close> and \<^verbatim>\<open>'legacy'\<close> truthy.
\<close>

definition version_truthy :: "requested_version option \<Rightarrow> bool" where
  "version_truthy requested =
     (case requested of
        None \<Rightarrow> False
      | Some Auto \<Rightarrow> True
      | Some (Explicit Legacy) \<Rightarrow> True
      | Some (Explicit V0) \<Rightarrow> False)"

definition resolveVersion :: "requested_version option \<Rightarrow> instruction list \<Rightarrow> transaction_version" where
  "resolveVersion requested instructions =
     (case requested of
        Some (Explicit v) \<Rightarrow>
          if version_truthy requested then v
          else if list_ex instructionUsesAddressLookup instructions then V0 else Legacy
      | _ \<Rightarrow> if list_ex instructionUsesAddressLookup instructions then V0 else Legacy)"

definition normaliseCommitment :: "'w runtime \<Rightarrow> 'w transaction_prepare_request \<Rightarrow> 'w \<Rightarrow> commitment" where
  "normaliseCommitment rt request w =
     (case req_commitment request of Some c \<Rightarrow> c | None \<Rightarrow> getFallbackCommitment rt w)"

text \<open>A fee payer given as the empty string is falsy.\<close>

definition fee_payer_truthy :: "fee_payer option \<Rightarrow> bool" where
  "fee_payer_truthy feePayer =
     (case feePayer of None \<Rightarrow> False | Some (FeePayerAddress s) \<Rightarrow> s \<noteq> [] | Some (FeePayerSigner _) \<Rightarrow> True)"

definition resolveFeePayerAddress ::
  "'w runtime \<Rightarrow> fee_payer option \<Rightarrow> transaction_signer option
     \<Rightarrow> error + (address \<times> transaction_signer option)" where
  "resolveFeePayerAddress rt feePayer authoritySigner =
     (if \<not> fee_payer_truthy feePayer \<and> authoritySigner = None
      then Inl (Error ''A fee payer must be provided via `feePayer` or `authority`.'')
      else case feePayer of
             Some (FeePayerSigner s) \<Rightarrow> Inr (signer_address s, Some s)
           | _ \<Rightarrow>
               (if fee_payer_truthy feePayer
                then (case parseAddress rt (case feePayer of Some (FeePayerAddress s) \<Rightarrow> s | _ \<Rightarrow> []) of
                        Inl e \<Rightarrow> Inl e
                      | Inr a \<Rightarrow>
                          (case authoritySigner of
                             Some auth \<Rightarrow> if signer_address auth = a then Inr (a, Some auth) else Inr (a, None)
                           | None \<Rightarrow> Inr (a, None)))
                else (case authoritySigner of
                        None \<Rightarrow> Inl (Error ''Unable to resolve authority signer for the fee payer.'')
                      | Some auth \<Rightarrow> Inr (signer_address auth, Some auth))))"

text \<open>\<^verbatim>\<open>typeof value === 'bigint' ? value : BigInt(Math.floor(value))\<close>\<close>

definition to_bigint_floor :: "bigint_or_number \<Rightarrow> error + int" where
  "to_bigint_floor v = (case v of BigintValue b \<Rightarrow> Inr b | NumberValue x \<Rightarrow> BigInt_of_number (js_floor x))"

definition resolveComputeUnitLimit ::
  "'w transaction_prepare_request \<Rightarrow> instruction list \<Rightarrow> error + int option" where
  "resolveComputeUnitLimit request instructions =
     (case req_computeUnitLimit request of
        None \<Rightarrow> Inr None
      | Some v \<Rightarrow>
          if hasSetComputeUnitLimitInstruction instructions then Inr None
          else (case to_bigint_floor v of Inl e \<Rightarrow> Inl e | Inr b \<Rightarrow> Inr (Some b)))"

definition resolveComputeUnitPrice ::
  "'w transaction_prepare_request \<Rightarrow> instruction list \<Rightarrow> error + int option" where
  "resolveComputeUnitPrice request instructions =
     (case req_computeUnitPrice request of
        None \<Rightarrow> Inr None
      | Some v \<Rightarrow>
          if hasSetComputeUnitPriceInstruction instructions then Inr None
          else (case to_bigint_floor v of Inl e \<Rightarrow> Inl e | Inr b \<Rightarrow> Inr (Some b)))"

text \<open>The authority of a request: its signer and the mode it resolves to.\<close>

definition resolveAuthority ::
  "transaction_authority option \<Rightarrow> commitment \<Rightarrow> error + (transaction_signer option \<times> signer_mode)" where
  "resolveAuthority authority commitment =
     (case authority of
        None \<Rightarrow> Inr (None, Partial)
      | Some (WalletAuthority session) \<Rightarrow>
          (case createWalletTransactionSigner session (Some commitment) of
             Inl e \<Rightarrow> Inl e
           | Inr (walletMode, signer) \<Rightarrow> Inr (Some signer, walletMode))
      | Some (SignerAuthority signer) \<Rightarrow> Inr (Some signer, resolveSignerMode signer))"

text \<open>\<^verbatim>\<open>if (mode === 'send') { if (!feePayerSigner || !isTransactionSendingSigner(feePayerSigner)) mode = 'partial' }\<close>\<close>

definition settle_mode :: "signer_mode \<Rightarrow> transaction_signer option \<Rightarrow> signer_mode" where
  "settle_mode mode feePayerSigner =
     (if mode = Send
      then (case feePayerSigner of
              None \<Rightarrow> Partial
            | Some s \<Rightarrow> if \<not> isTransactionSendingSigner s then Partial else mode)
      else mode)"

text \<open>The compute-budget instructions placed before the caller's.\<close>

definition prefixInstructions ::
  "'w runtime \<Rightarrow> int option \<Rightarrow> int option \<Rightarrow> error + instruction list" where
  "prefixInstructions rt resolvedComputeUnitLimit computeUnitPrice =
     (case (case resolvedComputeUnitLimit of
              None \<Rightarrow> Inr []
            | Some l \<Rightarrow> (case getSetComputeUnitLimitInstruction rt (Number_of_bigint l) of
                           Inl e \<Rightarrow> Inl e | Inr i \<Rightarrow> Inr [i])) of
        Inl e \<Rightarrow> Inl e
      | Inr limitPrefix \<Rightarrow>
          (case computeUnitPrice of
             None \<Rightarrow> Inr limitPrefix
           | Some p \<Rightarrow> (case getSetComputeUnitPriceInstruction rt (Number_of_bigint p) of
                          Inl e \<Rightarrow> Inl e | Inr i \<Rightarrow> Inr (limitPrefix @ [i]))))"

text \<open>
  \<^verbatim>\<open>createTransactionHelper(runtime, getFallbackCommitment).prepare\<close>. The one suspension
  is the fetch of the lifetime; the abort signal is read before it and twice after it.
\<close>

definition helper_prepare_impl ::
  "'w runtime \<Rightarrow> 'w transaction_prepare_request \<Rightarrow> ('w, transaction_prepared) async" where
  "helper_prepare_impl rt request w =
     (if length (req_instructions request) = 0
      then (Inl (Error ''Add at least one instruction before preparing a transaction.''), w)
      else case throwIfAborted (req_abortSignal request) w of
        Inl e \<Rightarrow> (Inl e, w)
      | Inr _ \<Rightarrow>
      let commitment = normaliseCommitment rt request w
      in case resolveAuthority (req_authority request) commitment of
        Inl e \<Rightarrow> (Inl e, w)
      | Inr (authoritySigner, mode0) \<Rightarrow>
      case resolveFeePayerAddress rt (req_feePayer request) authoritySigner of
        Inl e \<Rightarrow> (Inl e, w)
      | Inr (feePayer, feePayerSigner) \<Rightarrow>
      let mode = settle_mode mode0 feePayerSigner;
          baseInstructions = req_instructions request;
          version = resolveVersion (req_version request) baseInstructions
      in case (case req_lifetime request of
                 Some l \<Rightarrow> (Inr l, w)
               | None \<Rightarrow> rpc_getLatestBlockhash rt (Some commitment) (req_abortSignal request) w) of
        (Inl e, w1) \<Rightarrow> (Inl e, w1)
      | (Inr lifetime, w1) \<Rightarrow>
      case throwIfAborted (req_abortSignal request) w1 of
        Inl e \<Rightarrow> (Inl e, w1)
      | Inr _ \<Rightarrow>
      case resolveComputeUnitLimit request baseInstructions of
        Inl e \<Rightarrow> (Inl e, w1)
      | Inr resolvedComputeUnitLimit \<Rightarrow>
      case resolveComputeUnitPrice request baseInstructions of
        Inl e \<Rightarrow> (Inl e, w1)
      | Inr computeUnitPrice \<Rightarrow>
      case prefixInstructions rt resolvedComputeUnitLimit computeUnitPrice of
        Inl e \<Rightarrow> (Inl e, w1)
      | Inr prefix \<Rightarrow>
      case throwIfAborted (req_abortSignal request) w1 of
        Inl e \<Rightarrow> (Inl e, w1)
      | Inr _ \<Rightarrow>
      let finalMessage =
            \<lparr>msg_version = version, msg_feePayer = feePayer, msg_feePayerSigner = feePayerSigner,
             msg_instructions = prefix @ baseInstructions, msg_lifetimeConstraint = Some lifetime\<rparr>
      in (Inr \<lparr>prep_commitment = commitment,
               prep_computeUnitLimit = resolvedComputeUnitLimit,
               prep_computeUnitPrice = computeUnitPrice,
               prep_feePayer = feePayer,
               prep_instructions = baseInstructions,
               prep_lifetime = lifetime,
               prep_message = finalMessage,
               prep_mode = mode,
               prep_version = version\<rparr>, w1))"

section \<open>Compute unit tuner\<close>

text \<open>The options of \<^verbatim>\<open>prepareTransaction\<close>; the log callback acts on the world.\<close>

record 'w prepare_transaction_config =
  pt_transaction :: transaction_message
  pt_computeUnitLimitMultiplier :: "js_number option"
  pt_computeUnitLimitReset :: "bool option"
  pt_blockhashReset :: "bool option"
  pt_logRequest :: "(string \<Rightarrow> 'w \<Rightarrow> 'w) option"

text \<open>The double written \<^verbatim>\<open>1.1\<close>: \<open>4953959590107546 * 2 ^ -52\<close>.\<close>

definition DEFAULT_COMPUTE_UNIT_LIMIT_MULTIPLIER :: js_number where
  "DEFAULT_COMPUTE_UNIT_LIMIT_MULTIPLIER = Finite 4953959590107546 (- 52)"

definition isComputeUnitLimitInstruction :: "instruction \<Rightarrow> bool" where
  "isComputeUnitLimitInstruction i =
     (programAddress i = COMPUTE_BUDGET_PROGRAM_ADDRESS \<and> first_data_byte_is 2 i)"

text \<open>\<^verbatim>\<open>Array.prototype.findIndex\<close>; \<open>None\<close> is the result \<^verbatim>\<open>-1\<close>.\<close>

fun findIndex :: "('a \<Rightarrow> bool) \<Rightarrow> 'a list \<Rightarrow> nat option" where
  "findIndex P [] = None"
| "findIndex P (x # xs) =
     (if P x then Some 0 else (case findIndex P xs of None \<Rightarrow> None | Some i \<Rightarrow> Some (Suc i)))"

text \<open>\<^verbatim>\<open>list.splice(index, 1, item)\<close> on a copy of the list.\<close>

definition splice_one :: "nat \<Rightarrow> 'a \<Rightarrow> 'a list \<Rightarrow> 'a list" where
  "splice_one index item xs = take index xs @ [item] @ drop (Suc index) xs"

definition transactionToBase64 :: "'w runtime \<Rightarrow> transaction_message \<Rightarrow> error + string" where
  "transactionToBase64 rt tx =
     (case compileTransaction rt tx of
        Inl e \<Rightarrow> Inl e
      | Inr compiled \<Rightarrow> Inr (getBase64EncodedWireTransaction rt compiled))"

definition estimateComputeUnits :: "'w runtime \<Rightarrow> transaction_message \<Rightarrow> ('w, js_number) async" where
  "estimateComputeUnits rt transaction w =
     (case (if msg_lifetimeConstraint transaction \<noteq> None then (Inr transaction, w)
            else (case rpc_getLatestBlockhash rt None None w of
                    (Inl e, w1) \<Rightarrow> (Inl e, w1)
                  | (Inr latest, w1) \<Rightarrow> (Inr (transaction\<lparr>msg_lifetimeConstraint := Some latest\<rparr>), w1))) of
        (Inl e, w1) \<Rightarrow> (Inl e, w1)
      | (Inr target, w1) \<Rightarrow>
          (case transactionToBase64 rt target of
             Inl e \<Rightarrow> (Inl e, w1)
           | Inr base64Transaction \<Rightarrow>
               (case rpc_simulateTransaction rt base64Transaction
                       \<lparr>sim_encoding = ''base64'', sim_replaceRecentBlockhash = False, sim_sigVerify = False\<rparr> w1 of
                  (Inl e, w2) \<Rightarrow> (Inl e, w2)
                | (Inr v, w2) \<Rightarrow>
                    (let n = Number_of_bigint (case unitsConsumed v of None \<Rightarrow> 0 | Some u \<Rightarrow> u)
                     in (Inr (if js_truthy n then n else Finite 0 0), w2)))))"

text \<open>
  \<^verbatim>\<open>Math.max(1, unitsFromSimulation ? Math.ceil(unitsFromSimulation * multiplier) : 200_000)\<close>
\<close>

definition compute_units :: "js_number \<Rightarrow> js_number \<Rightarrow> js_number" where
  "compute_units unitsFromSimulation multiplier =
     js_max (Finite 1 0)
       (if js_truthy unitsFromSimulation then js_ceil (js_mul unitsFromSimulation multiplier)
        else Finite 200000 0)"

definition prepareTransaction ::
  "'w runtime \<Rightarrow> 'w prepare_transaction_config \<Rightarrow> ('w, transaction_message) async" where
  "prepareTransaction rt config w =
     (let multiplier = (case pt_computeUnitLimitMultiplier config of
                          None \<Rightarrow> DEFAULT_COMPUTE_UNIT_LIMIT_MULTIPLIER | Some m \<Rightarrow> m);
          shouldResetBlockhash = (pt_blockhashReset config \<noteq> Some False);
          shouldResetComputeUnits = (case pt_computeUnitLimitReset config of None \<Rightarrow> False | Some r \<Rightarrow> r);
          transaction = pt_transaction config;
          computeLimitIndex = findIndex isComputeUnitLimitInstruction (msg_instructions transaction)
      in case (if computeLimitIndex = None \<or> shouldResetComputeUnits
               then (case estimateComputeUnits rt transaction w of
                       (Inl e, w1) \<Rightarrow> (Inl e, w1)
                     | (Inr unitsFromSimulation, w1) \<Rightarrow>
                         (case getSetComputeUnitLimitInstruction rt
                                 (compute_units unitsFromSimulation multiplier) of
                            Inl e \<Rightarrow> (Inl e, w1)
                          | Inr instruction \<Rightarrow>
                              (case computeLimitIndex of
                                 None \<Rightarrow>
                                   (Inr (transaction\<lparr>msg_instructions :=
                                           msg_instructions transaction @ [instruction]\<rparr>), w1)
                               | Some index \<Rightarrow>
                                   (Inr (transaction\<lparr>msg_instructions :=
                                           splice_one index instruction (msg_instructions transaction)\<rparr>), w1))))
               else (Inr transaction, w)) of
           (Inl e, w1) \<Rightarrow> (Inl e, w1)
         | (Inr tuned, w1) \<Rightarrow>
             (case (if shouldResetBlockhash \<or> msg_lifetimeConstraint tuned = None
                    then (case rpc_getLatestBlockhash rt None None w1 of
                            (Inl e, w2) \<Rightarrow> (Inl e, w2)
                          | (Inr latest, w2) \<Rightarrow> (Inr (tuned\<lparr>msg_lifetimeConstraint := Some latest\<rparr>), w2))
                    else (Inr tuned, w1)) of
                (Inl e, w2) \<Rightarrow> (Inl e, w2)
              | (Inr final, w2) \<Rightarrow>
                  (case pt_logRequest config of
                     None \<Rightarrow> (Inr final, w2)
                   | Some callback \<Rightarrow>
                       (case transactionToBase64 rt final of
                          Inl e \<Rightarrow> (Inl e, w2)
                        | Inr base64WireTransaction \<Rightarrow> (Inr final, callback base64WireTransaction w2)))))"

section \<open>Sign and submit\<close>

definition helper_sign_impl ::
  "'w runtime \<Rightarrow> transaction_prepared \<Rightarrow> 'w transaction_sign_options \<Rightarrow> ('w, signed_transaction) async" where
  "helper_sign_impl rt prepared options w =
     signTransactionMessageWithSigners rt (prep_message prepared)
       \<lparr>sign_abortSignal = sign_abortSignal options, sign_minContextSlot = sign_minContextSlot options\<rparr> w"

definition helper_toWire_impl ::
  "'w runtime \<Rightarrow> transaction_prepared \<Rightarrow> 'w transaction_sign_options \<Rightarrow> ('w, string) async" where
  "helper_toWire_impl rt prepared options w =
     (case helper_sign_impl rt prepared options w of
        (Inl e, w1) \<Rightarrow> (Inl e, w1)
      | (Inr signedTransaction, w1) \<Rightarrow> (Inr (getBase64EncodedWireTransaction rt signedTransaction), w1))"

text \<open>
  \<^verbatim>\<open>options.maxRetries === undefined ? undefined : typeof options.maxRetries === 'bigint'
  ? options.maxRetries : BigInt(options.maxRetries)\<close>
\<close>

definition resolve_maxRetries :: "bigint_or_number option \<Rightarrow> error + int option" where
  "resolve_maxRetries maxRetries =
     (case maxRetries of
        None \<Rightarrow> Inr None
      | Some (BigintValue b) \<Rightarrow> Inr (Some b)
      | Some (NumberValue x) \<Rightarrow> (case BigInt_of_number x of Inl e \<Rightarrow> Inl e | Inr b \<Rightarrow> Inr (Some b)))"

text \<open>
  The two ways of submitting a message, shared by the Transaction Helper and the
  transfer helpers: through the sending signer, or signed here and sent over RPC.
\<close>

definition sign_and_send ::
  "'w runtime \<Rightarrow> transaction_message \<Rightarrow> 'w transaction_send_options \<Rightarrow> ('w, signature) async" where
  "sign_and_send rt message options w =
     (case signAndSendTransactionMessageWithSigners rt message
             \<lparr>sign_abortSignal = send_abortSignal options, sign_minContextSlot = send_minContextSlot options\<rparr> w of
        (Inl e, w1) \<Rightarrow> (Inl e, w1)
      | (Inr signatureBytes, w1) \<Rightarrow> (parseSignature rt (base58_decode rt signatureBytes), w1))"

definition sign_then_send ::
  "'w runtime \<Rightarrow> transaction_message \<Rightarrow> commitment option \<Rightarrow> 'w transaction_send_options
     \<Rightarrow> ('w, signature) async" where
  "sign_then_send rt message preflightCommitment options w =
     (case signTransactionMessageWithSigners rt message
             \<lparr>sign_abortSignal = send_abortSignal options, sign_minContextSlot = send_minContextSlot options\<rparr> w of
        (Inl e, w1) \<Rightarrow> (Inl e, w1)
      | (Inr signedTransaction, w1) \<Rightarrow>
          (let wire = getBase64EncodedWireTransaction rt signedTransaction
           in case resolve_maxRetries (send_maxRetries options) of
                Inl e \<Rightarrow> (Inl e, w1)
              | Inr maxRetries \<Rightarrow>
                  (case rpc_sendTransaction rt wire
                          \<lparr>stc_encoding = ''base64'', stc_maxRetries = maxRetries,
                           stc_preflightCommitment = preflightCommitment,
                           stc_skipPreflight = send_skipPreflight options\<rparr>
                          (send_abortSignal options) w1 of
                     (Inl e, w2) \<Rightarrow> (Inl e, w2)
                   | (Inr response, w2) \<Rightarrow> (parseSignature rt response, w2))))"

definition helper_send_impl ::
  "'w runtime \<Rightarrow> transaction_prepared \<Rightarrow> 'w transaction_send_options \<Rightarrow> ('w, signature) async" where
  "helper_send_impl rt prepared options w =
     (let commitment = (case send_commitment options of Some c \<Rightarrow> c | None \<Rightarrow> prep_commitment prepared)
      in if prep_mode prepared = Send then sign_and_send rt (prep_message prepared) options w
         else sign_then_send rt (prep_message prepared) (Some commitment) options w)"

definition no_send_options :: "'w transaction_send_options" where
  "no_send_options =
     \<lparr>send_abortSignal = None, send_commitment = None, send_maxRetries = None,
      send_minContextSlot = None, send_skipPreflight = None\<rparr>"

text \<open>
  \<^verbatim>\<open>prepareAndSend\<close>: prepare, then the tuner unless \<^verbatim>\<open>prepareTransaction: false\<close>, with
  \<^verbatim>\<open>blockhashReset\<close> defaulting to false here, then send.
\<close>

definition helper_prepareAndSend_impl ::
  "'w runtime \<Rightarrow> 'w transaction_prepare_and_send_request \<Rightarrow> 'w transaction_send_options option
     \<Rightarrow> ('w, signature) async" where
  "helper_prepareAndSend_impl rt request sendOptions w =
     (let options = (case sendOptions of None \<Rightarrow> no_send_options | Some opts \<Rightarrow> opts)
      in case helper_prepare_impl rt (transaction_prepare_request.truncate request) w of
           (Inl e, w1) \<Rightarrow> (Inl e, w1)
         | (Inr prepared, w1) \<Rightarrow>
             (case req_prepareTransaction request of
                Some PrepareTransactionFalse \<Rightarrow> helper_send_impl rt prepared options w1
              | other \<Rightarrow>
                  (let overrides = (case other of
                                      Some (PrepareTransactionOverrides ovr) \<Rightarrow> ovr
                                    | _ \<Rightarrow> \<lparr>ovr_computeUnitLimitMultiplier = None,
                                            ovr_computeUnitLimitReset = None,
                                            ovr_blockhashReset = None, ovr_logRequest = None\<rparr>)
                   in case prepareTransaction rt
                             \<lparr>pt_transaction = prep_message prepared,
                              pt_computeUnitLimitMultiplier = ovr_computeUnitLimitMultiplier overrides,
                              pt_computeUnitLimitReset = ovr_computeUnitLimitReset overrides,
                              pt_blockhashReset =
                                (case ovr_blockhashReset overrides of None \<Rightarrow> Some False | Some b \<Rightarrow> Some b),
                              pt_logRequest = ovr_logRequest overrides\<rparr> w1 of
                        (Inl e, w2) \<Rightarrow> (Inl e, w2)
                      | (Inr tunedMessage, w2) \<Rightarrow>
                          helper_send_impl rt (prepared\<lparr>prep_message := tunedMessage\<rparr>) options w2)))"

definition createTransactionHelper :: "'w runtime \<Rightarrow> 'w transaction_helper" where
  "createTransactionHelper rt =
     \<lparr>helper_prepare = helper_prepare_impl rt,
      helper_sign = helper_sign_impl rt,
      helper_toWire = helper_toWire_impl rt,
      helper_send = helper_send_impl rt,
      helper_prepareAndSend = helper_prepareAndSend_impl rt\<rparr>"

section \<open>SPL token helper\<close>

text \<open>
  What the SPL helper calls beyond the runtime: the token RPC methods and the functions
  of the token program client, uninterpreted like the runtime's.
\<close>

record token_amount_value =
  tav_amount :: string
  tav_uiAmountString :: "string option"

record 'w spl_library =
  findAssociatedTokenPda :: "address \<Rightarrow> address \<Rightarrow> address \<Rightarrow> ('w, address) async"
  fetchMint :: "address \<Rightarrow> commitment option \<Rightarrow> ('w, int) async"
  rpc_getTokenAccountBalance :: "address \<Rightarrow> commitment option \<Rightarrow> ('w, token_amount_value) async"
  rpc_getAccountInfo :: "address \<Rightarrow> commitment option \<Rightarrow> ('w, bool) async"
  getCreateAssociatedTokenInstruction ::
    "address \<Rightarrow> address \<Rightarrow> address \<Rightarrow> transaction_signer \<Rightarrow> address \<Rightarrow> error + instruction"
  getTransferCheckedInstruction ::
    "int \<Rightarrow> transaction_signer \<Rightarrow> int \<Rightarrow> address \<Rightarrow> address \<Rightarrow> address \<Rightarrow> error + instruction"

record spl_token_helper_config =
  shc_decimals :: "int option"
  shc_mint :: string
  shc_tokenProgram :: "string option"

text \<open>The helper's closure: the two addresses, and the decimals and math it caches.\<close>

record spl_token_helper =
  mintAddress :: address
  tokenProgram :: address
  cachedDecimals :: "int option"
  cachedMath :: "token_amount_math option"


datatype spl_amount = AmountBigint int | AmountNumber js_number string | AmountString string

record spl_transfer_prepare_config =
  spl_amount :: spl_amount
  spl_amountInBaseUnits :: "bool option"
  spl_authority :: transaction_authority
  spl_commitment :: "commitment option"
  spl_destinationOwner :: string
  spl_destinationToken :: "string option"
  spl_ensureDestinationAta :: "bool option"
  spl_lifetime :: "blockhash_lifetime option"
  spl_sourceOwner :: "string option"
  spl_sourceToken :: "string option"
  spl_transactionVersion :: "transaction_version option"

record prepared_spl_transfer =
  pst_amount :: int
  pst_commitment :: "commitment option"
  pst_decimals :: int
  pst_destinationAta :: address
  pst_lifetime :: blockhash_lifetime
  pst_message :: transaction_message
  pst_mode :: signer_mode
  pst_signer :: transaction_signer
  pst_sourceAta :: address

definition TOKEN_PROGRAM_ADDRESS :: string where
  "TOKEN_PROGRAM_ADDRESS = ''TokenkegQfeZyiNwAJbNbGKPFXCWuBvf9Ss623VQ5DA''"

definition ensureAddress :: "'w runtime \<Rightarrow> string option \<Rightarrow> address option \<Rightarrow> error + address" where
  "ensureAddress rt v fallback =
     (case (case v of Some s \<Rightarrow> if s = [] then None else Some s | None \<Rightarrow> None) of
        Some s \<Rightarrow> parseAddress rt s
      | None \<Rightarrow>
          (case fallback of
             None \<Rightarrow> Inl (Error ''An address value was expected but not provided.'')
           | Some a \<Rightarrow> Inr a))"

definition resolveLifetime ::
  "'w runtime \<Rightarrow> commitment option \<Rightarrow> blockhash_lifetime option \<Rightarrow> ('w, blockhash_lifetime) async" where
  "resolveLifetime rt commitment fallback w =
     (case fallback of
        Some l \<Rightarrow> (Inr l, w)
      | None \<Rightarrow> rpc_getLatestBlockhash rt commitment None w)"

definition resolveSigner ::
  "transaction_authority \<Rightarrow> commitment option \<Rightarrow> error + (signer_mode \<times> transaction_signer)" where
  "resolveSigner authority commitment =
     (case authority of
        WalletAuthority session \<Rightarrow> createWalletTransactionSigner session commitment
      | SignerAuthority signer \<Rightarrow> Inr (resolveSignerMode signer, signer))"

definition createSplTokenHelper :: "'w runtime \<Rightarrow> spl_token_helper_config \<Rightarrow> error + spl_token_helper" where
  "createSplTokenHelper rt config =
     (case ensureAddress rt (Some (shc_mint config)) None of
        Inl e \<Rightarrow> Inl e
      | Inr mint \<Rightarrow>
          (case parseAddress rt TOKEN_PROGRAM_ADDRESS of
             Inl e \<Rightarrow> Inl e
           | Inr tokenDefault \<Rightarrow>
               (case ensureAddress rt (shc_tokenProgram config) (Some tokenDefault) of
                  Inl e \<Rightarrow> Inl e
                | Inr program \<Rightarrow>
                    Inr \<lparr>mintAddress = mint, tokenProgram = program,
                         cachedDecimals = shc_decimals config, cachedMath = None\<rparr>)))"

text \<open>The helper's operations act on the helper's cache and on the world.\<close>

definition resolveDecimals ::
  "'w spl_library \<Rightarrow> commitment option \<Rightarrow> (spl_token_helper \<times> 'w, int) async" where
  "resolveDecimals lib commitment s =
     (case cachedDecimals (fst s) of
        Some d \<Rightarrow> (Inr d, s)
      | None \<Rightarrow>
          (case fetchMint lib (mintAddress (fst s)) commitment (snd s) of
             (Inl e, w1) \<Rightarrow> (Inl e, (fst s, w1))
           | (Inr d, w1) \<Rightarrow> (Inr d, ((fst s)\<lparr>cachedDecimals := Some d\<rparr>, w1))))"

definition getTokenMath ::
  "'w spl_library \<Rightarrow> commitment option \<Rightarrow> (spl_token_helper \<times> 'w, token_amount_math) async" where
  "getTokenMath lib commitment s =
     (case cachedMath (fst s) of
        Some m \<Rightarrow> (Inr m, s)
      | None \<Rightarrow>
          (case resolveDecimals lib commitment s of
             (Inl e, s1) \<Rightarrow> (Inl e, s1)
           | (Inr d, s1) \<Rightarrow>
               (case createTokenAmount d of
                  Inl e \<Rightarrow> (Inl e, s1)
                | Inr m \<Rightarrow> (Inr m, ((fst s1)\<lparr>cachedMath := Some m\<rparr>, snd s1)))))"

definition deriveAssociatedTokenAddress ::
  "'w runtime \<Rightarrow> 'w spl_library \<Rightarrow> string \<Rightarrow> (spl_token_helper \<times> 'w, address) async" where
  "deriveAssociatedTokenAddress rt lib owner s =
     (case ensureAddress rt (Some owner) None of
        Inl e \<Rightarrow> (Inl e, s)
      | Inr ownerAddress \<Rightarrow>
          (case findAssociatedTokenPda lib (mintAddress (fst s)) ownerAddress (tokenProgram (fst s)) (snd s) of
             (r, w1) \<Rightarrow> (r, (fst s, w1))))"



text \<open>
  \<^verbatim>\<open>config.amountInBaseUnits ? math.fromBaseUnits(config.amount, 'amount')
  : math.fromDecimal(config.amount as number | string, { label: 'amount' })\<close>; a bigint
  that reaches \<^verbatim>\<open>fromDecimal\<close> has no \<^verbatim>\<open>replace\<close> method.
\<close>

definition transfer_amount :: "token_amount_math \<Rightarrow> spl_transfer_prepare_config \<Rightarrow> error + int" where
  "transfer_amount math config =
     (if spl_amountInBaseUnits config = Some True
      then fromBaseUnits
             (case spl_amount config of
                AmountBigint b \<Rightarrow> BigintOf b | AmountNumber x _ \<Rightarrow> NumberOf x | AmountString s \<Rightarrow> StringOf s)
             (Some ''amount'')
      else (case spl_amount config of
              AmountBigint b \<Rightarrow> Inl (TypeError ''value.replace is not a function'')
            | AmountNumber x printed \<Rightarrow>
                fromDecimal math (DecimalNumber x printed) \<lparr>parse_label = Some ''amount'', parse_rounding = None\<rparr>
            | AmountString s \<Rightarrow>
                fromDecimal math (DecimalString s) \<lparr>parse_label = Some ''amount'', parse_rounding = None\<rparr>))"

text \<open>
  The instructions of the transfer: the creation of the destination account when it is
  to be ensured and \<^verbatim>\<open>getAccountInfo\<close> finds none, then the checked transfer.
\<close>

definition transfer_instructions ::
  "'w spl_library \<Rightarrow> spl_transfer_prepare_config \<Rightarrow> transaction_signer \<Rightarrow> address \<Rightarrow> address
     \<Rightarrow> address \<Rightarrow> int \<Rightarrow> int \<Rightarrow> (spl_token_helper \<times> 'w, instruction list) async" where
  "transfer_instructions lib config signer destinationOwner sourceAta destinationAta amount decimals s =
     (case (if (case spl_ensureDestinationAta config of None \<Rightarrow> True | Some b \<Rightarrow> b)
            then (case rpc_getAccountInfo lib destinationAta (spl_commitment config) (snd s) of
                    (Inl e, w1) \<Rightarrow> (Inl e, (fst s, w1))
                  | (Inr found, w1) \<Rightarrow>
                      (if \<not> found
                       then (case getCreateAssociatedTokenInstruction lib destinationAta (mintAddress (fst s))
                                    destinationOwner signer (tokenProgram (fst s)) of
                               Inl e \<Rightarrow> (Inl e, (fst s, w1))
                             | Inr i \<Rightarrow> (Inr [i], (fst s, w1)))
                       else (Inr [], (fst s, w1))))
            else (Inr [], s)) of
        (Inl e, s1) \<Rightarrow> (Inl e, s1)
      | (Inr instructionList, s1) \<Rightarrow>
          (case getTransferCheckedInstruction lib amount signer decimals destinationAta
                  (mintAddress (fst s1)) sourceAta of
             Inl e \<Rightarrow> (Inl e, s1)
           | Inr i \<Rightarrow> (Inr (instructionList @ [i]), s1)))"

definition prepareTransfer ::
  "'w runtime \<Rightarrow> 'w spl_library \<Rightarrow> spl_transfer_prepare_config
     \<Rightarrow> (spl_token_helper \<times> 'w, prepared_spl_transfer) async" where
  "prepareTransfer rt lib config s =
     (let commitment = spl_commitment config
      in (case resolveLifetime rt commitment (spl_lifetime config) (snd s) of
        (Inl e, w1) \<Rightarrow> (Inl e, (fst s, w1))
      | (Inr lifetime, w1) \<Rightarrow>
      (case resolveSigner (spl_authority config) commitment of
        Inl e \<Rightarrow> (Inl e, (fst s, w1))
      | Inr (mode, signer) \<Rightarrow>
      (case ensureAddress rt (spl_sourceOwner config) (Some (signer_address signer)) of
        Inl e \<Rightarrow> (Inl e, (fst s, w1))
      | Inr sourceOwner \<Rightarrow>
      (case ensureAddress rt (Some (spl_destinationOwner config)) None of
        Inl e \<Rightarrow> (Inl e, (fst s, w1))
      | Inr destinationOwner \<Rightarrow>
      (case deriveAssociatedTokenAddress rt lib sourceOwner (fst s, w1) of
        (Inl e, s2) \<Rightarrow> (Inl e, s2)
      | (Inr derivedSource, s2) \<Rightarrow>
      (case ensureAddress rt (spl_sourceToken config) (Some derivedSource) of
        Inl e \<Rightarrow> (Inl e, s2)
      | Inr sourceAta \<Rightarrow>
      (case deriveAssociatedTokenAddress rt lib destinationOwner s2 of
        (Inl e, s3) \<Rightarrow> (Inl e, s3)
      | (Inr derivedDestination, s3) \<Rightarrow>
      (case ensureAddress rt (spl_destinationToken config) (Some derivedDestination) of
        Inl e \<Rightarrow> (Inl e, s3)
      | Inr destinationAta \<Rightarrow>
      (case getTokenMath lib commitment s3 of
        (Inl e, s4) \<Rightarrow> (Inl e, s4)
      | (Inr math, s4) \<Rightarrow>
      (case resolveDecimals lib commitment s4 of
        (Inl e, s5) \<Rightarrow> (Inl e, s5)
      | (Inr decimals, s5) \<Rightarrow>
      (case transfer_amount math config of
        Inl e \<Rightarrow> (Inl e, s5)
      | Inr amount \<Rightarrow>
      (case transfer_instructions lib config signer destinationOwner sourceAta destinationAta
              amount decimals s5 of
        (Inl e, s6) \<Rightarrow> (Inl e, s6)
      | (Inr instructionList, s6) \<Rightarrow>
        (Inr \<lparr>pst_amount = amount, pst_commitment = commitment, pst_decimals = decimals,
              pst_destinationAta = destinationAta, pst_lifetime = lifetime,
              pst_message =
                \<lparr>msg_version = (case spl_transactionVersion config of None \<Rightarrow> V0 | Some v \<Rightarrow> v),
                 msg_feePayer = signer_address signer, msg_feePayerSigner = None,
                 msg_instructions = instructionList, msg_lifetimeConstraint = Some lifetime\<rparr>,
              pst_mode = mode, pst_signer = signer, pst_sourceAta = sourceAta\<rparr>, s6))))))))))))))"

definition sendPreparedTransfer ::
  "'w runtime \<Rightarrow> prepared_spl_transfer \<Rightarrow> 'w transaction_send_options option
     \<Rightarrow> (spl_token_helper \<times> 'w, signature) async" where
  "sendPreparedTransfer rt prepared sendOptions s =
     (let options = (case sendOptions of None \<Rightarrow> no_send_options | Some opts \<Rightarrow> opts)
      in case (if pst_mode prepared = Send \<and> isTransactionSendingSigner (pst_signer prepared)
               then sign_and_send rt (pst_message prepared) options (snd s)
               else sign_then_send rt (pst_message prepared)
                      (case send_commitment options of Some c \<Rightarrow> Some c | None \<Rightarrow> pst_commitment prepared)
                      options (snd s)) of
           (r, w1) \<Rightarrow> (r, (fst s, w1)))"

text \<open>
  \<^verbatim>\<open>sendTransfer\<close>. Next to its outcome it returns the calls it made to
  \<^verbatim>\<open>prepareTransfer\<close> and \<^verbatim>\<open>sendPreparedTransfer\<close>, in order.
\<close>

datatype spl_call =
  CallPrepareTransfer spl_transfer_prepare_config
  | CallSendPreparedTransfer prepared_spl_transfer

definition sendTransfer ::
  "'w runtime \<Rightarrow> 'w spl_library \<Rightarrow> spl_transfer_prepare_config \<Rightarrow> 'w transaction_send_options option
     \<Rightarrow> spl_token_helper \<times> 'w
     \<Rightarrow> spl_call list \<times> ((error + signature) \<times> (spl_token_helper \<times> 'w))" where
  "sendTransfer rt lib config sendOptions s =
     (case prepareTransfer rt lib config s of
        (Inl e, s1) \<Rightarrow> ([CallPrepareTransfer config], (Inl e, s1))
      | (Inr prepared, s1) \<Rightarrow>
          (case sendPreparedTransfer rt prepared sendOptions s1 of
             (Inr sig, s2) \<Rightarrow>
               ([CallPrepareTransfer config, CallSendPreparedTransfer prepared], (Inr sig, s2))
           | (Inl e, s2) \<Rightarrow>
               (if isSolanaError e TransactionErrorAlreadyProcessed
                then (case prepareTransfer rt lib (config\<lparr>spl_lifetime := None\<rparr>) s2 of
                        (Inl e', s3) \<Rightarrow>
                          ([CallPrepareTransfer config, CallSendPreparedTransfer prepared,
                            CallPrepareTransfer (config\<lparr>spl_lifetime := None\<rparr>)], (Inl e', s3))
                      | (Inr retriedPrepared, s3) \<Rightarrow>
                          ([CallPrepareTransfer config, CallSendPreparedTransfer prepared,
                            CallPrepareTransfer (config\<lparr>spl_lifetime := None\<rparr>),
                            CallSendPreparedTransfer retriedPrepared],
                           sendPreparedTransfer rt retriedPrepared sendOptions s3))
                else ([CallPrepareTransfer config, CallSendPreparedTransfer prepared], (Inl e, s2)))))"

section \<open>Concrete inputs\<close>

text \<open>The values at which the theorems below are instantiated.\<close>

definition demo_instruction :: instruction where
  "demo_instruction =
     \<lparr>programAddress = ''Demo1111111111111111111111111111111111'',
      accounts = Some [],
      data = Some [1],
      addressTableLookup = None,
      addressTableLookups = None\<rparr>"

definition demo_lifetime :: blockhash_lifetime where
  "demo_lifetime = \<lparr>blockhash = ''blockhash'', lastValidBlockHeight = 1\<rparr>"

definition demo_message :: transaction_message where
  "demo_message =
     \<lparr>msg_version = V0, msg_feePayer = ''payer'', msg_feePayerSigner = None,
      msg_instructions = [demo_instruction], msg_lifetimeConstraint = Some demo_lifetime\<rparr>"

definition demo_prepared :: transaction_prepared where
  "demo_prepared =
     \<lparr>prep_commitment = Processed, prep_computeUnitLimit = None, prep_computeUnitPrice = None,
      prep_feePayer = ''payer'', prep_instructions = [demo_instruction],
      prep_lifetime = demo_lifetime, prep_message = demo_message, prep_mode = Send,
      prep_version = V0\<rparr>"

text \<open>A helper whose operations all resolve, as the mocked helper of the controller's tests.\<close>

definition demo_helper :: "unit transaction_helper" where
  "demo_helper =
     \<lparr>helper_prepare = (\<lambda>request w. (Inr demo_prepared, w)),
      helper_sign = (\<lambda>prepared options w. (Inr \<lparr>signed_message = prep_message prepared, signatures = []\<rparr>, w)),
      helper_toWire = (\<lambda>prepared options w. (Inr ''wire'', w)),
      helper_send = (\<lambda>prepared options w. (Inr ''sig-send'', w)),
      helper_prepareAndSend = (\<lambda>request options w. (Inr ''sig-prep-send'', w))\<rparr>"

definition demo_options :: "unit transaction_pool_prepare_options" where
  "demo_options =
     \<lparr>opt_abortSignal = None, opt_authority = None, opt_commitment = None,
      opt_computeUnitLimit = None, opt_computeUnitPrice = None, opt_feePayer = None,
      opt_instructions = None, opt_lifetime = None, opt_version = None\<rparr>"

definition demo_pool :: transaction_pool where
  "demo_pool =
     subscribePrepared 7
       (createTransactionPoolController
          \<lparr>cfg_blockhashMaxAgeMs = None, cfg_initialInstructions = Some [demo_instruction]\<rparr>)"

definition demo_cache :: latest_blockhash_cache where
  "demo_cache = \<lparr>updatedAt = 1000, cache_value = \<lparr>blockhash = ''cache'', lastValidBlockHeight = 2\<rparr>\<rparr>"

definition demo_cached_pool :: transaction_pool where
  "demo_cached_pool = setLatestBlockhashCache (Some demo_cache) demo_pool"

definition six_decimals :: token_amount_math where
  "six_decimals = \<lparr>tam_decimals = 6, tam_scale = 1000000\<rparr>"

definition with_rounding :: "rounding_mode \<Rightarrow> parse_amount_options" where
  "with_rounding m = \<lparr>parse_label = None, parse_rounding = Some m\<rparr>"

definition default_format :: format_amount_options where
  "default_format = \<lparr>minimumFractionDigits = None, trimTrailingZeros = None\<rparr>"

text \<open>
  A runtime whose RPC calls all succeed and count themselves in the world, a number; its
  simulation reports 500000 units, as the mocked RPC of the tuner's tests does. The
  compute-budget instructions carry their discriminator and the little-endian amount.
\<close>

definition little_endian :: "nat list \<Rightarrow> int \<Rightarrow> 8 word list" where
  "little_endian positions v = map (\<lambda>k. word_of_int (v div 256 ^ k)) positions"

definition demo_compute_budget :: "8 word \<Rightarrow> nat list \<Rightarrow> js_number \<Rightarrow> error + instruction" where
  "demo_compute_budget tag positions x =
     (case x of
        Finite v e \<Rightarrow>
          if e = 0 \<and> 0 \<le> v \<and> v < 256 ^ length positions
          then Inr \<lparr>programAddress = COMPUTE_BUDGET_PROGRAM_ADDRESS, accounts = None,
                    data = Some (tag # little_endian positions v),
                    addressTableLookup = None, addressTableLookups = None\<rparr>
          else Inl (SolanaError (OtherSolanaErrorCode 8078011))
      | _ \<Rightarrow> Inl (SolanaError (OtherSolanaErrorCode 8078011)))"

definition demo_runtime :: "nat runtime" where
  "demo_runtime =
     \<lparr>rpc_getLatestBlockhash = (\<lambda>commitment signal w. (Inr \<lparr>blockhash = ''abc'', lastValidBlockHeight = 123\<rparr>, Suc w)),
      rpc_simulateTransaction = (\<lambda>wire config w. (Inr \<lparr>unitsConsumed = Some 500000, sim_logs = None\<rparr>, Suc w)),
      rpc_sendTransaction = (\<lambda>wire config signal w. (Inr ''signature'', Suc w)),
      getFallbackCommitment = (\<lambda>w. Confirmed),
      parseAddress = Inr,
      getSetComputeUnitLimitInstruction = demo_compute_budget 2 [0, 1, 2, 3],
      getSetComputeUnitPriceInstruction = demo_compute_budget 3 [0, 1, 2, 3, 4, 5, 6, 7],
      signTransactionMessageWithSigners = (\<lambda>m options w. (Inr \<lparr>signed_message = m, signatures = []\<rparr>, w)),
      signAndSendTransactionMessageWithSigners = (\<lambda>m options w. (Inr [], Suc w)),
      compileTransaction = (\<lambda>m. Inr \<lparr>signed_message = m, signatures = []\<rparr>),
      getBase64EncodedWireTransaction = (\<lambda>t. ''wire''),
      base58_decode = (\<lambda>bytes. ''signature''),
      parseSignature = Inr\<rparr>"

definition send_only_session :: wallet_session where
  "send_only_session =
     \<lparr>account_address = ''wallet'', has_sendTransaction = True, has_signMessage = False,
      has_signTransaction = False\<rparr>"

definition demo_request :: "nat transaction_prepare_request" where
  "demo_request =
     \<lparr>req_abortSignal = None, req_authority = Some (WalletAuthority send_only_session),
      req_commitment = None, req_computeUnitLimit = None, req_computeUnitPrice = None,
      req_feePayer = None, req_instructions = [demo_instruction], req_lifetime = None,
      req_version = None\<rparr>"



text \<open>
  A helper that resolves every call and keeps, as the state of the world, the list of
  the lifetimes of the requests it was called with.
\<close>

definition recording_helper :: "blockhash_lifetime option list transaction_helper" where
  "recording_helper =
     \<lparr>helper_prepare = (\<lambda>request w. (Inr demo_prepared, w @ [req_lifetime request])),
      helper_sign = (\<lambda>prepared options w. (Inr \<lparr>signed_message = prep_message prepared, signatures = []\<rparr>, w)),
      helper_toWire = (\<lambda>prepared options w. (Inr ''wire'', w)),
      helper_send = (\<lambda>prepared options w. (Inr ''sig-send'', w)),
      helper_prepareAndSend = (\<lambda>request options w. (Inr ''sig-prep-send'', w @ [req_lifetime request]))\<rparr>"

definition recording_options :: "blockhash_lifetime option list transaction_pool_prepare_options" where
  "recording_options =
     \<lparr>opt_abortSignal = None, opt_authority = None, opt_commitment = None,
      opt_computeUnitLimit = None, opt_computeUnitPrice = None, opt_feePayer = None,
      opt_instructions = None, opt_lifetime = None, opt_version = None\<rparr>"

definition recording_send_request ::
  "blockhash_lifetime option list transaction_pool_prepare_and_send_options" where
  "recording_send_request =
     transaction_pool_prepare_options.extend recording_options
       (transaction_pool_prepare_and_send_options.fields None)"

text \<open>
  A token library whose calls resolve, except the balance lookup, which is rejected as
  it is for an account that does not exist; a helper for a mint of six decimals; and a
  transfer of 1500000 base units signed by a partial signer, with a lifetime supplied.
\<close>

definition demo_spl_library :: "nat spl_library" where
  "demo_spl_library =
     \<lparr>findAssociatedTokenPda = (\<lambda>mint owner program w. (Inr (owner @ ''-ata''), w)),
      fetchMint = (\<lambda>mint commitment w. (Inr 6, w)),
      rpc_getTokenAccountBalance =
        (\<lambda>ata commitment w. (Inl (SolanaError (OtherSolanaErrorCode 8100002)), Suc w)),
      rpc_getAccountInfo = (\<lambda>ata commitment w. (Inr True, w)),
      getCreateAssociatedTokenInstruction = (\<lambda>ata mint owner payer program. Inr demo_instruction),
      getTransferCheckedInstruction = (\<lambda>amount authority decimals destination mint source. Inr demo_instruction)\<rparr>"

definition demo_spl_helper :: spl_token_helper where
  "demo_spl_helper =
     \<lparr>mintAddress = ''mint'', tokenProgram = TOKEN_PROGRAM_ADDRESS, cachedDecimals = Some 6,
      cachedMath = None\<rparr>"

definition demo_signer :: transaction_signer where
  "demo_signer =
     \<lparr>signer_address = ''owner'', has_signTransactions = True,
      has_modifyAndSignTransactions = False, has_signAndSendTransactions = False\<rparr>"

definition demo_transfer_config :: spl_transfer_prepare_config where
  "demo_transfer_config =
     \<lparr>spl_amount = AmountBigint 1500000, spl_amountInBaseUnits = Some True,
      spl_authority = SignerAuthority demo_signer, spl_commitment = None,
      spl_destinationOwner = ''recipient'', spl_destinationToken = None,
      spl_ensureDestinationAta = None, spl_lifetime = Some demo_lifetime,
      spl_sourceOwner = None, spl_sourceToken = None, spl_transactionVersion = None\<rparr>"

text \<open>What \<^verbatim>\<open>prepareTransfer\<close> makes of that transfer, for a given lifetime.\<close>

definition demo_prepared_transfer :: "blockhash_lifetime \<Rightarrow> prepared_spl_transfer" where
  "demo_prepared_transfer lifetime =
     \<lparr>pst_amount = 1500000, pst_commitment = None, pst_decimals = 6,
      pst_destinationAta = ''recipient-ata'', pst_lifetime = lifetime,
      pst_message =
        \<lparr>msg_version = V0, msg_feePayer = ''owner'', msg_feePayerSigner = None,
         msg_instructions = [demo_instruction], msg_lifetimeConstraint = Some lifetime\<rparr>,
      pst_mode = Partial, pst_signer = demo_signer, pst_sourceAta = ''owner-ata''\<rparr>"

text \<open>
  A runtime whose world counts the RPC requests made so far: the latest blockhash
  carries that count as its height, and \<^verbatim>\<open>sendTransaction\<close> is rejected with the
  error \<open>err\<close> while fewer than \<open>k\<close> requests have been made.
\<close>

definition retry_runtime :: "error \<Rightarrow> nat \<Rightarrow> nat runtime" where
  "retry_runtime err k =
     demo_runtime
       \<lparr>rpc_getLatestBlockhash :=
          (\<lambda>commitment signal w. (Inr \<lparr>blockhash = ''fresh'', lastValidBlockHeight = int w\<rparr>, Suc w)),
        rpc_sendTransaction :=
          (\<lambda>wire config signal w. (if w < k then Inl err else Inr ''signature'', Suc w))\<rparr>"



section \<open>Properties of the instruction pool controller\<close>

lemmas pool_defs =
  createTransactionPoolController_def createStore_def subscribe_def
  set_instructions_def set_prepared_def set_prepareState_def set_sendState_def
  getInstructions_def getPrepared_def getPrepareState_def getSendState_def
  resetDerivedState_def commitInstructions_def addInstruction_def addInstructions_def
  replaceInstructions_def clearInstructions_def removeInstruction_def reset_def
  ensureInstructions_def resolveCachedLifetime_def setLatestBlockhashCache_def
  subscribePrepared_def createInitialAsyncState_def createAsyncState_def
  helper_request_def prepare_lifetime_def resolveLifetimeOptions_def
  prepare_begin_def prepare_settle_def prepare_def resolvePrepared_def send_settle_def
  send_def prepareAndSend_begin_def prepareAndSend_def call_def calls_def is_mutation_def
  commits_def Let_def

lemmas demo_defs =
  demo_instruction_def demo_lifetime_def demo_message_def demo_prepared_def demo_helper_def
  demo_options_def demo_pool_def demo_cache_def

lemma commitInstructions_derived:
  "getPrepared (commitInstructions next p) = None"
  "getPrepareState (commitInstructions next p) = createInitialAsyncState"
  "getSendState (commitInstructions next p) = createInitialAsyncState"
  "getInstructions (commitInstructions next p) = next"
  by (simp_all add: commitInstructions_def resetDerivedState_def set_instructions_def
      set_prepared_def set_prepareState_def set_sendState_def getPrepared_def
      getPrepareState_def getSendState_def getInstructions_def)

lemma commits_call:
  assumes "commits c p"
  shows "\<exists>next. fst (call helper c (p, w)) = commitInstructions next p"
  using assms
  by (cases c)
     (auto simp: commits_def is_mutation_def call_def addInstruction_def addInstructions_def
        removeInstruction_def replaceInstructions_def clearInstructions_def reset_def Let_def)

text \<open>
  C10. \<^verbatim>\<open>addInstructions\<close> with an empty list, and \<^verbatim>\<open>removeInstruction\<close> with an index
  that is negative or not less than the length of the current list, return the
  controller as it was: the instruction list, the prepared snapshot, \<^verbatim>\<open>prepareState\<close>
  and \<^verbatim>\<open>sendState\<close> are unchanged (so not reset to idle) and the notification log is
  unchanged (no listener is called).
\<close>

theorem guarded_mutations_are_noops:
  "addInstructions [] p = p \<and>
   (index < 0 \<or> int (length (getInstructions p)) \<le> index \<longrightarrow> removeInstruction index p = p)"
  by (simp add: addInstructions_def removeInstruction_def Let_def)

theorem guarded_mutations_are_noops_witness:
  "addInstructions [] (fst (calls demo_helper [Prepare 0 demo_options] (demo_pool, ())))
     = fst (calls demo_helper [Prepare 0 demo_options] (demo_pool, ())) \<and>
   int (length (getInstructions (fst (calls demo_helper [Prepare 0 demo_options] (demo_pool, ()))))) \<le> 1 \<and>
   removeInstruction 1 (fst (calls demo_helper [Prepare 0 demo_options] (demo_pool, ())))
     = fst (calls demo_helper [Prepare 0 demo_options] (demo_pool, ())) \<and>
   getPrepared (removeInstruction 1 (fst (calls demo_helper [Prepare 0 demo_options] (demo_pool, ()))))
     = Some demo_prepared \<and>
   notifications (removeInstruction 1 (fst (calls demo_helper [Prepare 0 demo_options] (demo_pool, ()))))
     = [(PreparedSlice, 7)]"
  using guarded_mutations_are_noops
          [of "fst (calls demo_helper [Prepare 0 demo_options] (demo_pool, ()))" 1]
  by (simp add: pool_defs demo_defs)

text \<open>
  C4, as the claim states it, fails: after a successful \<^verbatim>\<open>prepare\<close>, the mutation call
  \<^verbatim>\<open>addInstructions([])\<close> leaves the prepared snapshot and the success state in place.
\<close>

theorem pool_invalidation_counterexample:
  "is_mutation (AddInstructions [] :: unit pool_call) \<and>
   getPrepared (fst (calls demo_helper [Prepare 0 demo_options, AddInstructions []] (demo_pool, ())))
     = Some demo_prepared \<and>
   state_status (getPrepareState
      (fst (calls demo_helper [Prepare 0 demo_options, AddInstructions []] (demo_pool, ())))) = Success"
  by (simp add: pool_defs demo_defs)

text \<open>
  C4, amended. After any sequence of controller calls (mutations, \<^verbatim>\<open>prepare\<close>, \<^verbatim>\<open>send\<close>,
  \<^verbatim>\<open>prepareAndSend\<close>, cache updates), a mutation call that gets past its guard
  (\<^verbatim>\<open>addInstruction\<close>, \<^verbatim>\<open>addInstructions\<close> with a non-empty list, \<^verbatim>\<open>removeInstruction\<close>
  with an index in range, \<^verbatim>\<open>replaceInstructions\<close>, \<^verbatim>\<open>clearInstructions\<close>, \<^verbatim>\<open>reset\<close>)
  leaves the prepared snapshot null and both \<^verbatim>\<open>prepareState\<close> and \<^verbatim>\<open>sendState\<close> idle.
\<close>

theorem pool_invalidation:
  assumes "commits c (fst (calls helper cs s))"
  shows "getPrepared (fst (call helper c (calls helper cs s))) = None \<and>
         state_status (getPrepareState (fst (call helper c (calls helper cs s)))) = Idle \<and>
         state_status (getSendState (fst (call helper c (calls helper cs s)))) = Idle"
proof -
  obtain p w where s': "calls helper cs s = (p, w)"
    by (cases "calls helper cs s")
  with assms have "commits c p"
    by simp
  from commits_call [OF this, of helper w]
  obtain next_list where "fst (call helper c (p, w)) = commitInstructions next_list p" ..
  then show ?thesis
    by (simp add: s' commitInstructions_derived createInitialAsyncState_def)
qed

theorem pool_invalidation_witness:
  "commits (RemoveInstruction 0 :: unit pool_call)
     (fst (calls demo_helper [Prepare 0 demo_options] (demo_pool, ()))) \<and>
   getPrepared (fst (calls demo_helper [Prepare 0 demo_options] (demo_pool, ()))) = Some demo_prepared \<and>
   getPrepared (fst (call demo_helper (RemoveInstruction 0)
      (calls demo_helper [Prepare 0 demo_options] (demo_pool, ())))) = None \<and>
   state_status (getPrepareState (fst (call demo_helper (RemoveInstruction 0)
      (calls demo_helper [Prepare 0 demo_options] (demo_pool, ()))))) = Idle \<and>
   state_status (getSendState (fst (call demo_helper (RemoveInstruction 0)
      (calls demo_helper [Prepare 0 demo_options] (demo_pool, ()))))) = Idle"
proof -
  have h: "commits (RemoveInstruction 0 :: unit pool_call)
     (fst (calls demo_helper [Prepare 0 demo_options] (demo_pool, ())))"
    by (simp add: pool_defs demo_defs)
  have g: "getPrepared (fst (calls demo_helper [Prepare 0 demo_options] (demo_pool, ()))) = Some demo_prepared"
    by (simp add: pool_defs demo_defs)
  from h g pool_invalidation [OF h] show ?thesis
    by simp
qed

lemma begin_lifetime:
  "fst (prepare_begin now options p) = Inr request \<Longrightarrow>
     req_lifetime request =
       (case opt_lifetime options of
          Some l \<Rightarrow> Some l
        | None \<Rightarrow>
            (case latestBlockhashCache p of
               None \<Rightarrow> None
             | Some c \<Rightarrow> if now - updatedAt c \<le> blockhashMaxAgeMs p then Some (cache_value c) else None))"
  "fst (prepareAndSend_begin now options' p) = Inr request' \<Longrightarrow>
     req_lifetime request' =
       (case opt_lifetime options' of
          Some l \<Rightarrow> Some l
        | None \<Rightarrow>
            (case latestBlockhashCache p of
               None \<Rightarrow> None
             | Some c \<Rightarrow> if now - updatedAt c \<le> blockhashMaxAgeMs p then Some (cache_value c) else None))"
  by (auto simp: prepare_begin_def prepareAndSend_begin_def ensureInstructions_def
        helper_request_def prepare_lifetime_def resolveLifetimeOptions_def
        resolveCachedLifetime_def transaction_prepare_request.defs Let_def
      split: option.splits if_splits sum.splits)

lemma prepare_begin_request:
  assumes "instructions = (case opt_instructions options of None \<Rightarrow> getInstructions p | Some l \<Rightarrow> l)"
    and "instructions \<noteq> []"
  shows "prepare_begin now options p =
           (Inr (helper_request options (prepare_lifetime now options p) instructions),
            set_prepareState (createAsyncState Loading None None) p)"
  using assms by (simp add: prepare_begin_def ensureInstructions_def Let_def)

lemma prepareAndSend_begin_request:
  assumes "instructions = (case opt_instructions request of None \<Rightarrow> getInstructions p | Some l \<Rightarrow> l)"
    and "instructions \<noteq> []"
  shows "prepareAndSend_begin now request p =
           (Inr (transaction_prepare_request.extend
                   (helper_request request (resolveLifetimeOptions now request p) instructions)
                   (transaction_prepare_and_send_request.fields (opt_prepareTransaction request))),
            set_sendState (createAsyncState Loading None None) p)"
  using assms by (simp add: prepareAndSend_begin_def ensureInstructions_def Let_def)

lemma injected_lifetime:
  "prepare_lifetime now options p =
     (case opt_lifetime options of
        Some l \<Rightarrow> Some l
      | None \<Rightarrow>
          (case latestBlockhashCache p of
             None \<Rightarrow> None
           | Some c \<Rightarrow> if now - updatedAt c \<le> blockhashMaxAgeMs p then Some (cache_value c) else None))"
  "resolveLifetimeOptions now options p =
     (case opt_lifetime options of
        Some l \<Rightarrow> Some l
      | None \<Rightarrow>
          (case latestBlockhashCache p of
             None \<Rightarrow> None
           | Some c \<Rightarrow> if now - updatedAt c \<le> blockhashMaxAgeMs p then Some (cache_value c) else None))"
  by (auto simp: prepare_lifetime_def resolveLifetimeOptions_def resolveCachedLifetime_def Let_def
      split: option.splits)

text \<open>
  C8. With a non-empty instruction list, the controller's \<^verbatim>\<open>prepare\<close> is the helper's
  \<^verbatim>\<open>prepare\<close>, and its \<^verbatim>\<open>prepareAndSend\<close> the helper's \<^verbatim>\<open>prepareAndSend\<close>, called on a
  request whose lifetime is the caller's explicit lifetime when there is one; otherwise
  the cached value exactly when a cache is held and \<open>now - updatedAt \<le> maxAgeMs\<close>, and
  none (the helper fetches a fresh one) when the cache is older or absent. The outcome
  of that call is then recorded in the state. \<open>maxAgeMs\<close> is 30000 unless configured.
\<close>

theorem cached_lifetime_default:
  assumes "lifetime =
             (case opt_lifetime options of
                Some l \<Rightarrow> Some l
              | None \<Rightarrow>
                  (case latestBlockhashCache p of
                     None \<Rightarrow> None
                   | Some c \<Rightarrow> if now - updatedAt c \<le> blockhashMaxAgeMs p then Some (cache_value c) else None))"
    and "instructions = (case opt_instructions options of None \<Rightarrow> getInstructions p | Some l \<Rightarrow> l)"
    and "instructions \<noteq> []"
    and "lifetime' =
             (case opt_lifetime request of
                Some l \<Rightarrow> Some l
              | None \<Rightarrow>
                  (case latestBlockhashCache p of
                     None \<Rightarrow> None
                   | Some c \<Rightarrow> if now - updatedAt c \<le> blockhashMaxAgeMs p then Some (cache_value c) else None))"
    and "instructions' = (case opt_instructions request of None \<Rightarrow> getInstructions p | Some l \<Rightarrow> l)"
    and "instructions' \<noteq> []"
  shows "prepare helper now options (p, w) =
           (case helper_prepare helper (helper_request options lifetime instructions) w of
              (r, w1) \<Rightarrow>
                (case prepare_settle r (set_prepareState (createAsyncState Loading None None) p) of
                   (out, p1) \<Rightarrow> (out, (p1, w1)))) \<and>
         req_lifetime (helper_request options lifetime instructions) = lifetime \<and>
         req_instructions (helper_request options lifetime instructions) = instructions \<and>
         prepareAndSend helper now request sendOptions (p, w) =
           (case helper_prepareAndSend helper
                   (transaction_prepare_request.extend (helper_request request lifetime' instructions')
                      (transaction_prepare_and_send_request.fields (opt_prepareTransaction request)))
                   sendOptions w of
              (r, w1) \<Rightarrow>
                (case send_settle r (set_sendState (createAsyncState Loading None None) p) of
                   (out, p1) \<Rightarrow> (out, (p1, w1)))) \<and>
         req_lifetime (transaction_prepare_request.extend (helper_request request lifetime' instructions')
                        (transaction_prepare_and_send_request.fields (opt_prepareTransaction request)))
           = lifetime' \<and>
         req_instructions (transaction_prepare_request.extend (helper_request request lifetime' instructions')
                        (transaction_prepare_and_send_request.fields (opt_prepareTransaction request)))
           = instructions' \<and>
         blockhashMaxAgeMs (setLatestBlockhashCache cache (createTransactionPoolController config)) =
           (case cfg_blockhashMaxAgeMs config of None \<Rightarrow> 30000 | Some n \<Rightarrow> n)"
proof -
  have a: "prepare helper now options (p, w) =
           (case helper_prepare helper (helper_request options lifetime instructions) w of
              (r, w1) \<Rightarrow>
                (case prepare_settle r (set_prepareState (createAsyncState Loading None None) p) of
                   (out, p1) \<Rightarrow> (out, (p1, w1))))"
    unfolding prepare_def
    by (simp add: prepare_begin_request [OF assms(2,3)] injected_lifetime(1) assms(1))
  have b: "prepareAndSend helper now request sendOptions (p, w) =
           (case helper_prepareAndSend helper
                   (transaction_prepare_request.extend (helper_request request lifetime' instructions')
                      (transaction_prepare_and_send_request.fields (opt_prepareTransaction request)))
                   sendOptions w of
              (r, w1) \<Rightarrow>
                (case send_settle r (set_sendState (createAsyncState Loading None None) p) of
                   (out, p1) \<Rightarrow> (out, (p1, w1))))"
    unfolding prepareAndSend_def
    by (simp add: prepareAndSend_begin_request [OF assms(5,6)] injected_lifetime(2) assms(4))
  have c: "req_lifetime (helper_request options lifetime instructions) = lifetime"
    "req_instructions (helper_request options lifetime instructions) = instructions"
    "req_lifetime (transaction_prepare_request.extend (helper_request request lifetime' instructions')
                        (transaction_prepare_and_send_request.fields (opt_prepareTransaction request)))
           = lifetime'"
    "req_instructions (transaction_prepare_request.extend (helper_request request lifetime' instructions')
                        (transaction_prepare_and_send_request.fields (opt_prepareTransaction request)))
           = instructions'"
    by (simp_all add: helper_request_def transaction_prepare_request.defs)
  have d: "blockhashMaxAgeMs (setLatestBlockhashCache cache (createTransactionPoolController config)) =
           (case cfg_blockhashMaxAgeMs config of None \<Rightarrow> 30000 | Some n \<Rightarrow> n)"
    by (simp add: setLatestBlockhashCache_def createTransactionPoolController_def Let_def)
  from a b c d show ?thesis by simp
qed

theorem cached_lifetime_default_witness:
  "31000 - updatedAt demo_cache \<le> blockhashMaxAgeMs demo_cached_pool \<and>
   getInstructions demo_cached_pool = [demo_instruction] \<and>
   snd (snd (prepare recording_helper 31000 recording_options (demo_cached_pool, [])))
     = [Some (cache_value demo_cache)] \<and>
   snd (snd (prepareAndSend recording_helper 31000 recording_send_request None (demo_cached_pool, [])))
     = [Some (cache_value demo_cache)] \<and>
   blockhashMaxAgeMs demo_cached_pool = 30000"
proof -
  have fresh: "31000 - updatedAt demo_cache \<le> blockhashMaxAgeMs demo_cached_pool"
    by (simp add: pool_defs demo_defs demo_cached_pool_def)
  have instructions: "getInstructions demo_cached_pool = [demo_instruction]"
    by (simp add: pool_defs demo_defs demo_cached_pool_def)
  have l: "Some (cache_value demo_cache) =
             (case opt_lifetime recording_options of
                Some l \<Rightarrow> Some l
              | None \<Rightarrow>
                  (case latestBlockhashCache demo_cached_pool of
                     None \<Rightarrow> None
                   | Some c \<Rightarrow> if 31000 - updatedAt c \<le> blockhashMaxAgeMs demo_cached_pool
                              then Some (cache_value c) else None))"
    by (simp add: pool_defs demo_defs demo_cached_pool_def recording_options_def)
  have i: "[demo_instruction] =
             (case opt_instructions recording_options of
                None \<Rightarrow> getInstructions demo_cached_pool | Some l \<Rightarrow> l)"
    by (simp add: instructions recording_options_def)
  have l': "Some (cache_value demo_cache) =
             (case opt_lifetime recording_send_request of
                Some l \<Rightarrow> Some l
              | None \<Rightarrow>
                  (case latestBlockhashCache demo_cached_pool of
                     None \<Rightarrow> None
                   | Some c \<Rightarrow> if 31000 - updatedAt c \<le> blockhashMaxAgeMs demo_cached_pool
                              then Some (cache_value c) else None))"
    by (simp add: pool_defs demo_defs demo_cached_pool_def recording_options_def
        recording_send_request_def transaction_pool_prepare_options.defs)
  have i': "[demo_instruction] =
             (case opt_instructions recording_send_request of
                None \<Rightarrow> getInstructions demo_cached_pool | Some l \<Rightarrow> l)"
    by (simp add: instructions recording_options_def recording_send_request_def
        transaction_pool_prepare_options.defs)
  have ne: "[demo_instruction] \<noteq> []"
    by simp
  have age: "blockhashMaxAgeMs demo_cached_pool = 30000"
    by (simp add: pool_defs demo_defs demo_cached_pool_def)
  from cached_lifetime_default [OF l i ne l' i' ne, of recording_helper "[]" None]
  have "prepare recording_helper 31000 recording_options (demo_cached_pool, []) =
           (case helper_prepare recording_helper
                   (helper_request recording_options (Some (cache_value demo_cache)) [demo_instruction]) [] of
              (r, w1) \<Rightarrow>
                (case prepare_settle r (set_prepareState (createAsyncState Loading None None) demo_cached_pool) of
                   (out, p1) \<Rightarrow> (out, (p1, w1))))"
    and "prepareAndSend recording_helper 31000 recording_send_request None (demo_cached_pool, []) =
           (case helper_prepareAndSend recording_helper
                   (transaction_prepare_request.extend
                      (helper_request recording_send_request (Some (cache_value demo_cache)) [demo_instruction])
                      (transaction_prepare_and_send_request.fields (opt_prepareTransaction recording_send_request)))
                   None [] of
              (r, w1) \<Rightarrow>
                (case send_settle r (set_sendState (createAsyncState Loading None None) demo_cached_pool) of
                   (out, p1) \<Rightarrow> (out, (p1, w1))))"
    by simp_all
  then have "snd (snd (prepare recording_helper 31000 recording_options (demo_cached_pool, [])))
               = [Some (cache_value demo_cache)]"
    and "snd (snd (prepareAndSend recording_helper 31000 recording_send_request None (demo_cached_pool, [])))
               = [Some (cache_value demo_cache)]"
    by (simp_all add: recording_helper_def helper_request_def prepare_settle_def send_settle_def
        transaction_prepare_request.defs)
  with fresh instructions age show ?thesis by simp
qed

section \<open>Properties of the amount math\<close>

lemma BigInt_of_digits_snoc: "BigInt_of_digits (xs @ [c]) = BigInt_of_digits xs * 10 + digit_value c"
  by (simp add: BigInt_of_digits_def)

lemma BigInt_of_digits_append:
  "BigInt_of_digits (xs @ ys) = BigInt_of_digits xs * 10 ^ length ys + BigInt_of_digits ys"
proof (induction ys rule: rev_induct)
  case Nil
  show ?case by (simp add: BigInt_of_digits_def)
next
  case (snoc y ys)
  have "BigInt_of_digits (xs @ ys @ [y]) = BigInt_of_digits (xs @ ys) * 10 + digit_value y"
    using BigInt_of_digits_snoc [of "xs @ ys" y] by simp
  with snoc show ?case
    by (simp add: BigInt_of_digits_snoc algebra_simps)
qed

lemma digit_value_range: "is_digit c \<Longrightarrow> 0 \<le> digit_value c \<and> digit_value c \<le> 9"
  by (auto simp: is_digit_def digit_value_def)

lemma BigInt_of_digits_bounds:
  "list_all is_digit ds \<Longrightarrow> 0 \<le> BigInt_of_digits ds \<and> BigInt_of_digits ds < 10 ^ length ds"
proof (induction ds rule: rev_induct)
  case Nil
  show ?case by (simp add: BigInt_of_digits_def)
next
  case (snoc d ds)
  then have ih: "0 \<le> BigInt_of_digits ds" "BigInt_of_digits ds < 10 ^ length ds"
    and d: "0 \<le> digit_value d" "digit_value d \<le> 9"
    using digit_value_range by auto
  from ih(2) have "BigInt_of_digits ds + 1 \<le> 10 ^ length ds" by simp
  then have "(BigInt_of_digits ds + 1) * 10 \<le> 10 ^ length ds * 10" by (rule mult_right_mono) simp
  with ih d show ?case
    by (simp add: BigInt_of_digits_snoc)
qed

lemma BigInt_of_digits_zeros: "BigInt_of_digits (replicate n CHR ''0'') = 0"
proof (induction n)
  case 0
  show ?case by (simp add: BigInt_of_digits_def)
next
  case (Suc n)
  have "replicate (Suc n) CHR ''0'' = replicate n CHR ''0'' @ [CHR ''0'']"
    by (simp add: replicate_append_same)
  with Suc show ?case
    by (simp add: BigInt_of_digits_snoc digit_value_def del: replicate.simps)
qed

lemma split_on_absent: "c \<notin> set xs \<Longrightarrow> split_on c xs = [xs]"
  by (induction xs) auto

lemma split_on_first: "c \<notin> set xs \<Longrightarrow> split_on c (xs @ c # ys) = xs # split_on c ys"
  by (induction xs) auto

lemma dot_not_digit: "list_all is_digit ds \<Longrightarrow> CHR ''.'' \<notin> set ds"
  by (auto simp: list_all_iff is_digit_def)

lemma takeWhile_digits:
  "list_all is_digit ip \<Longrightarrow> takeWhile is_digit (ip @ CHR ''.'' # fd) = ip"
  "list_all is_digit ip \<Longrightarrow> dropWhile is_digit (ip @ CHR ''.'' # fd) = CHR ''.'' # fd"
  "list_all is_digit ip \<Longrightarrow> takeWhile is_digit ip = ip"
  "list_all is_digit ip \<Longrightarrow> dropWhile is_digit ip = []"
  by (induction ip) (auto simp: is_digit_def)

lemma sanitized_parts:
  assumes "ip \<noteq> []" "list_all is_digit ip" "list_all is_digit fd"
    and s: "s = ip @ (if fd = [] then [] else CHR ''.'' # fd)"
  shows "s \<noteq> []" "DECIMAL_PATTERN_test s" "hd (split_on CHR ''.'' s) = ip"
    "(case split_on CHR ''.'' s of _ # f # _ \<Rightarrow> Some f | _ \<Rightarrow> None) = (if fd = [] then None else Some fd)"
proof -
  show "s \<noteq> []" using assms by simp
  show "DECIMAL_PATTERN_test s"
    using assms by (cases "fd = []") (simp_all add: DECIMAL_PATTERN_test_def takeWhile_digits)
  have a: "CHR ''.'' \<notin> set ip" "CHR ''.'' \<notin> set fd"
    using assms dot_not_digit by auto
  show "hd (split_on CHR ''.'' s) = ip"
    using a s by (cases "fd = []") (simp_all add: split_on_absent split_on_first)
  show "(case split_on CHR ''.'' s of _ # f # _ \<Rightarrow> Some f | _ \<Rightarrow> None) = (if fd = [] then None else Some fd)"
    using a s by (cases "fd = []") (simp_all add: split_on_absent split_on_first)
qed

lemma truncated_units_eq:
  "truncated_units ip fd d =
     BigInt_of_digits ip * 10 ^ d + BigInt_of_digits (padEnd d CHR ''0'' (take d fd))"
proof -
  have "length (take d fd @ replicate (d - length fd) CHR ''0'') = d"
    by auto
  moreover have "padEnd d CHR ''0'' (take d fd) = take d fd @ replicate (d - length fd) CHR ''0''"
    by (auto simp: padEnd_def min_def)
  ultimately show ?thesis
    unfolding truncated_units_def
    using BigInt_of_digits_append [of ip "take d fd @ replicate (d - length fd) CHR ''0''"]
    by simp
qed

lemma nonzero_digit_iff: "is_digit c \<Longrightarrow> is_nonzero_digit c \<longleftrightarrow> c \<noteq> CHR ''0''"
proof -
  have "(of_char c :: nat) = 48 \<longleftrightarrow> c = CHR ''0''"
    using of_char_eq_iff [where ?'a = nat, of c "CHR ''0''"] by simp
  then show "is_digit c \<Longrightarrow> is_nonzero_digit c \<longleftrightarrow> c \<noteq> CHR ''0''"
    by (auto simp: is_digit_def is_nonzero_digit_def)
qed

lemma hasRemainder_iff:
  "list_all is_digit ds \<Longrightarrow> list_ex is_nonzero_digit ds \<longleftrightarrow> (\<exists>c \<in> set ds. c \<noteq> CHR ''0'')"
  using nonzero_digit_iff by (auto simp: list_all_iff list_ex_iff)

lemma ge5_iff: "(53::nat) \<le> of_char c \<longleftrightarrow> 5 \<le> digit_value c"
  by (auto simp: digit_value_def)

lemma decimalToBaseUnits_core:
  assumes san: "trim (filter (\<lambda>c. c \<noteq> CHR ''_'') x) = ip @ (if fd = [] then [] else CHR ''.'' # fd)"
    and ip: "ip \<noteq> []" "list_all is_digit ip" and fd: "list_all is_digit fd"
  shows "decimalToBaseUnits x d scale \<lparr>parse_label = l, parse_rounding = r\<rparr> =
     (if d = 0
      then (if fd = [] then Inr (BigInt_of_digits ip * scale)
            else if (case r of None \<Rightarrow> Floor | Some m \<Rightarrow> m) = Ceil \<and> list_ex is_nonzero_digit fd
            then Inr (BigInt_of_digits ip * scale + 1)
            else if (case r of None \<Rightarrow> Floor | Some m \<Rightarrow> m) = Round \<and> (53::nat) \<le> of_char (hd fd)
            then Inr (BigInt_of_digits ip * scale + 1)
            else Inr (BigInt_of_digits ip * scale))
      else (if d < length fd
            then (if (case r of None \<Rightarrow> Floor | Some m \<Rightarrow> m) = Ceil \<and> list_ex is_nonzero_digit (drop d fd)
                  then Inr (BigInt_of_digits ip * scale + BigInt_of_digits (padEnd d CHR ''0'' (take d fd)) + 1)
                  else if (case r of None \<Rightarrow> Floor | Some m \<Rightarrow> m) = Round
                  then (if (53::nat) \<le> of_char (hd (drop d fd))
                        then Inr (BigInt_of_digits ip * scale + BigInt_of_digits (padEnd d CHR ''0'' (take d fd)) + 1)
                        else Inr (BigInt_of_digits ip * scale + BigInt_of_digits (padEnd d CHR ''0'' (take d fd))))
                  else Inr (BigInt_of_digits ip * scale + BigInt_of_digits (padEnd d CHR ''0'' (take d fd))))
            else Inr (BigInt_of_digits ip * scale + BigInt_of_digits (padEnd d CHR ''0'' (take d fd)))))"
proof -
  define s where "s = trim (filter (\<lambda>c. c \<noteq> CHR ''_'') x)"
  have s: "s = ip @ (if fd = [] then [] else CHR ''.'' # fd)"
    using san by (simp add: s_def)
  note parts = sanitized_parts [OF ip fd s]
  have nonneg: "assertNonNegative (BigInt_of_digits ip) lab = Inr ()" for lab
    using BigInt_of_digits_bounds [OF ip(2)] by (simp add: assertNonNegative_def)
  have fdd: "(case (if fd = [] then None else Some fd) of None \<Rightarrow> [] | Some f \<Rightarrow> f) = fd"
    by simp
  have pad_ne: "d \<noteq> 0 \<Longrightarrow> padEnd d CHR ''0'' ys \<noteq> []" for ys
    by (auto simp: padEnd_def)
  show ?thesis
  proof (cases "d = 0")
    case True
    show ?thesis
      unfolding decimalToBaseUnits_def s_def [symmetric] Let_def
      by (simp add: parts nonneg fdd ip True del: split_on.simps split del: if_split cong: if_cong)
  next
    case False
    show ?thesis
      unfolding decimalToBaseUnits_def s_def [symmetric] Let_def
      by (simp add: parts nonneg fdd ip False pad_ne del: split_on.simps split del: if_split cong: if_cong)
  qed
qed

lemma decimalToBaseUnits_digits:
  assumes san: "trim (filter (\<lambda>c. c \<noteq> CHR ''_'') x) = ip @ (if fd = [] then [] else CHR ''.'' # fd)"
    and ip: "ip \<noteq> []" "list_all is_digit ip" and fd: "list_all is_digit fd"
  shows "decimalToBaseUnits x d (10 ^ d) \<lparr>parse_label = l, parse_rounding = r\<rparr> =
           Inr (truncated_units ip fd d +
                (if rounds_up (case r of None \<Rightarrow> Floor | Some m \<Rightarrow> m) (drop d fd) then 1 else 0))"
proof -
  define m where "m = (case r of None \<Rightarrow> Floor | Some m \<Rightarrow> m)"
  have rest: "list_all is_digit (drop d fd)"
    using fd by (auto simp: list_all_iff dest: in_set_dropD)
  note core = decimalToBaseUnits_core [OF san ip fd, of d "10 ^ d" l r, folded m_def]
  show ?thesis
  proof (cases "d = 0")
    case True
    show ?thesis
      unfolding m_def [symmetric] core
      using hasRemainder_iff [OF fd] True
      by (cases m) (simp_all add: truncated_units_eq padEnd_def BigInt_of_digits_def rounds_up_def ge5_iff)
  next
    case False
    show ?thesis
    proof (cases "d < length fd")
      case True
      then show ?thesis
        unfolding m_def [symmetric] core
        using hasRemainder_iff [OF rest] False
        by (cases m) (simp_all add: truncated_units_eq rounds_up_def ge5_iff)
    next
      case long: False
      then show ?thesis
        unfolding m_def [symmetric] core
        using False
        by (cases m) (simp_all add: truncated_units_eq rounds_up_def)
    qed
  qed
qed

lemma createTokenAmount_scale:
  "createTokenAmount decimals = Inr tm \<Longrightarrow>
     0 \<le> decimals \<and> decimals \<le> 38 \<and> tam_decimals tm = nat decimals \<and> tam_scale tm = 10 ^ tam_decimals tm"
  by (auto simp: createTokenAmount_def assertDecimals_def pow10_def split: if_splits sum.splits)

lemma sample_string:
  "trim (filter (\<lambda>c. c \<noteq> CHR ''_'') ''1.23456789'') = ''1'' @ (if ''23456789'' = [] then [] else CHR ''.'' # ''23456789'')"
  "''1'' \<noteq> []" "list_all is_digit ''1''" "list_all is_digit ''23456789''"
  by (simp_all add: trim_def is_space_def is_digit_def)

lemma sample_units:
  "truncated_units ''1'' ''23456789'' 6 = 1234567"
  "rounds_up Ceil (drop 6 ''23456789'')" "\<not> rounds_up Floor (drop 6 ''23456789'')"
  by (simp_all add: truncated_units_def BigInt_of_digits_def digit_value_def rounds_up_def)

lemma six_decimals_created: "createTokenAmount 6 = Inr six_decimals"
  by (simp add: createTokenAmount_def assertDecimals_def pow10_def six_decimals_def)

text \<open>The hypotheses of the next theorem describe exactly the strings the pattern accepts;
  every other string is rejected with a syntax error.\<close>

lemma DECIMAL_PATTERN_shape:
  "DECIMAL_PATTERN_test s \<longleftrightarrow>
     (\<exists>ip fd. s = ip @ (if fd = [] then [] else CHR ''.'' # fd) \<and> ip \<noteq> [] \<and>
        list_all is_digit ip \<and> list_all is_digit fd)"
proof
  assume t: "DECIMAL_PATTERN_test s"
  define ip where "ip = takeWhile is_digit s"
  define rest where "rest = dropWhile is_digit s"
  have s: "s = ip @ rest" by (simp add: ip_def rest_def)
  have ip: "ip \<noteq> []" "list_all is_digit ip"
    using t by (auto simp: DECIMAL_PATTERN_test_def ip_def list_all_iff dest: set_takeWhileD)
  show "\<exists>ip fd. s = ip @ (if fd = [] then [] else CHR ''.'' # fd) \<and> ip \<noteq> [] \<and>
        list_all is_digit ip \<and> list_all is_digit fd"
  proof (cases rest)
    case Nil
    with s ip show ?thesis by (intro exI [of _ ip] exI [of _ "[]"]) simp
  next
    case (Cons c fr)
    with t have "c = CHR ''.''" "fr \<noteq> []" "list_all is_digit fr"
      by (simp_all add: DECIMAL_PATTERN_test_def rest_def [symmetric])
    with s ip Cons show ?thesis by (intro exI [of _ ip] exI [of _ fr]) simp
  qed
next
  assume "\<exists>ip fd. s = ip @ (if fd = [] then [] else CHR ''.'' # fd) \<and> ip \<noteq> [] \<and>
        list_all is_digit ip \<and> list_all is_digit fd"
  then show "DECIMAL_PATTERN_test s"
    using sanitized_parts(2) by blast
qed

lemma decimalToBaseUnits_invalid:
  "\<not> DECIMAL_PATTERN_test (trim (filter (\<lambda>c. c \<noteq> CHR ''_'') x)) \<Longrightarrow>
     \<exists>msg. decimalToBaseUnits x d scale options = Inl (SyntaxError msg)"
  by (simp add: decimalToBaseUnits_def Let_def)

text \<open>
  C6. For a valid decimal string (after removal of underscores and surrounding white
  space: integer digits \<open>ip\<close>, then possibly a point and fractional digits \<open>fd\<close>),
  \<^verbatim>\<open>fromDecimal\<close> truncates the fractional digits to the token's decimals and adds one
  base unit exactly when the rounding mode asks for it: never under \<^verbatim>\<open>floor\<close>, when a
  truncated-away digit is nonzero under \<^verbatim>\<open>ceil\<close>, when the first truncated-away digit
  is 5 or more under \<^verbatim>\<open>round\<close>. For 6 decimals, \<^verbatim>\<open>'1.23456789'\<close> gives 1234567 under
  \<^verbatim>\<open>floor\<close> and one more under \<^verbatim>\<open>ceil\<close>.
\<close>

theorem fromDecimal_rounding:
  assumes "createTokenAmount decimals = Inr tm"
    and "trim (filter (\<lambda>c. c \<noteq> CHR ''_'') x) = ip @ (if fd = [] then [] else CHR ''.'' # fd)"
    and "ip \<noteq> []" and "list_all is_digit ip" and "list_all is_digit fd"
  shows "fromDecimal tm (DecimalString x) \<lparr>parse_label = l, parse_rounding = r\<rparr> =
           Inr (truncated_units ip fd (tam_decimals tm) +
                (if rounds_up (case r of None \<Rightarrow> Floor | Some m \<Rightarrow> m) (drop (tam_decimals tm) fd)
                 then 1 else 0)) \<and>
         createTokenAmount 6 = Inr six_decimals \<and>
         fromDecimal six_decimals (DecimalString ''1.23456789'') (with_rounding Floor) = Inr 1234567 \<and>
         fromDecimal six_decimals (DecimalString ''1.23456789'') (with_rounding Ceil) = Inr (1234567 + 1)"
proof -
  have scale: "tam_scale tm = 10 ^ tam_decimals tm"
    using createTokenAmount_scale [OF assms(1)] by simp
  have general: "fromDecimal tm (DecimalString x) \<lparr>parse_label = l, parse_rounding = r\<rparr> =
           Inr (truncated_units ip fd (tam_decimals tm) +
                (if rounds_up (case r of None \<Rightarrow> Floor | Some m \<Rightarrow> m) (drop (tam_decimals tm) fd)
                 then 1 else 0))"
    using decimalToBaseUnits_digits [OF assms(2-5), of "tam_decimals tm" l r]
    by (simp add: fromDecimal_def scale)
  have six: "tam_scale six_decimals = 10 ^ tam_decimals six_decimals" "tam_decimals six_decimals = 6"
    by (simp_all add: six_decimals_def)
  have lo: "fromDecimal six_decimals (DecimalString ''1.23456789'') (with_rounding Floor) = Inr 1234567"
    using decimalToBaseUnits_digits [OF sample_string, of 6 None "Some Floor"] sample_units
    by (simp add: fromDecimal_def six with_rounding_def)
  have hi: "fromDecimal six_decimals (DecimalString ''1.23456789'') (with_rounding Ceil) = Inr (1234567 + 1)"
    using decimalToBaseUnits_digits [OF sample_string, of 6 None "Some Ceil"] sample_units
    by (simp add: fromDecimal_def six with_rounding_def)
  from general six_decimals_created lo hi show ?thesis
    by simp
qed

theorem fromDecimal_rounding_witness:
  "createTokenAmount 6 = Inr six_decimals \<and>
   trim (filter (\<lambda>c. c \<noteq> CHR ''_'') ''1.23456789'') = ''1.23456789'' \<and>
   list_all is_digit ''1'' \<and> list_all is_digit ''23456789'' \<and>
   fromDecimal six_decimals (DecimalString ''1.23456789'') (with_rounding Round) = Inr 1234568 \<and>
   fromDecimal six_decimals (DecimalString ''1.23456789'') (with_rounding Ceil) = Inr 1234568 \<and>
   fromDecimal six_decimals (DecimalString ''1.23456789'') (with_rounding Floor) = Inr 1234567"
proof -
  have r: "rounds_up Round (drop 6 ''23456789'')"
    by (simp add: rounds_up_def digit_value_def)
  from fromDecimal_rounding [OF six_decimals_created sample_string, of None "Some Round"]
    sample_string sample_units r
  show ?thesis
    by (simp add: six_decimals_def with_rounding_def)
qed

lemma digit_char_digit_value: "is_digit c \<Longrightarrow> digit_char (nat (digit_value c)) = c"
  by (simp add: digit_char_def digit_value_def is_digit_def nat_diff_distrib)

lemma digits_of_nat_step:
  "b < 10 \<Longrightarrow> digits_of_nat (a * 10 + b) =
     (if a = 0 then [digit_char b] else digits_of_nat a @ [digit_char b])"
  by (subst digits_of_nat.simps) auto

lemma digit_char_simps:
  "digit_char 0 = CHR ''0''" "digit_char 1 = CHR ''1''" "digit_char 2 = CHR ''2''"
  "digit_char 3 = CHR ''3''" "digit_char 4 = CHR ''4''" "digit_char 5 = CHR ''5''"
  "digit_char 6 = CHR ''6''" "digit_char 7 = CHR ''7''" "digit_char 8 = CHR ''8''"
  "digit_char 9 = CHR ''9''"
  using char_of_char [where ?'a = nat, of "CHR ''0''"] char_of_char [where ?'a = nat, of "CHR ''1''"]
    char_of_char [where ?'a = nat, of "CHR ''2''"] char_of_char [where ?'a = nat, of "CHR ''3''"]
    char_of_char [where ?'a = nat, of "CHR ''4''"] char_of_char [where ?'a = nat, of "CHR ''5''"]
    char_of_char [where ?'a = nat, of "CHR ''6''"] char_of_char [where ?'a = nat, of "CHR ''7''"]
    char_of_char [where ?'a = nat, of "CHR ''8''"] char_of_char [where ?'a = nat, of "CHR ''9''"]
  by (simp_all add: digit_char_def)

lemma digits_of_nat_small: "n < 10 \<Longrightarrow> digits_of_nat n = [digit_char n]"
  by (simp add: digits_of_nat.simps)

lemma digits_of_nat_zero: "digits_of_nat 0 = ''0''"
  by (simp add: digits_of_nat_small digit_char_simps)

lemma nat_BigInt_snoc:
  assumes "list_all is_digit (ys @ [c])"
  shows "nat (BigInt_of_digits (ys @ [c])) = nat (BigInt_of_digits ys) * 10 + nat (digit_value c)"
    and "nat (digit_value c) < 10"
proof -
  have "0 \<le> BigInt_of_digits ys" using assms BigInt_of_digits_bounds [of ys] by simp
  moreover have "0 \<le> digit_value c" "digit_value c \<le> 9" using assms digit_value_range [of c] by simp_all
  ultimately show "nat (BigInt_of_digits (ys @ [c])) = nat (BigInt_of_digits ys) * 10 + nat (digit_value c)"
    and "nat (digit_value c) < 10"
    by (simp_all add: BigInt_of_digits_snoc nat_add_distrib nat_mult_distrib)
qed

lemma digits_of_nat_canonical:
  "list_all is_digit ds \<Longrightarrow> ds \<noteq> [] \<Longrightarrow> ds = ''0'' \<or> hd ds \<noteq> CHR ''0'' \<Longrightarrow>
     digits_of_nat (nat (BigInt_of_digits ds)) = ds"
proof (induction ds rule: rev_induct)
  case Nil
  then show ?case by simp
next
  case (snoc c ys)
  note step = nat_BigInt_snoc [OF snoc.prems(1)]
  have c: "is_digit c" using snoc.prems(1) by simp
  show ?case
  proof (cases "ys = []")
    case True
    then show ?thesis
      using c step by (simp add: digits_of_nat_small digit_char_digit_value BigInt_of_digits_def)
  next
    case False
    then have hd: "hd ys \<noteq> CHR ''0''"
      using snoc.prems(3) by (cases ys) auto
    have ih: "digits_of_nat (nat (BigInt_of_digits ys)) = ys"
      using snoc.IH snoc.prems(1) False hd by simp
    have "nat (BigInt_of_digits ys) \<noteq> 0"
    proof
      assume "nat (BigInt_of_digits ys) = 0"
      with ih have "ys = ''0''" by (simp add: digits_of_nat_zero)
      with hd show False by simp
    qed
    then show ?thesis
      using step ih c by (simp add: digits_of_nat_step digit_char_digit_value)
  qed
qed

lemma padStart_digits:
  "list_all is_digit ds \<Longrightarrow> ds \<noteq> [] \<Longrightarrow>
     padStart (length ds) CHR ''0'' (digits_of_nat (nat (BigInt_of_digits ds))) = ds"
proof (induction ds rule: rev_induct)
  case Nil
  then show ?case by simp
next
  case (snoc c ys)
  note step = nat_BigInt_snoc [OF snoc.prems(1)]
  have c: "is_digit c" using snoc.prems(1) by simp
  show ?case
  proof (cases "ys = []")
    case True
    then show ?thesis
      using c step by (simp add: digits_of_nat_small digit_char_digit_value BigInt_of_digits_def padStart_def)
  next
    case False
    have ih: "padStart (length ys) CHR ''0'' (digits_of_nat (nat (BigInt_of_digits ys))) = ys"
      using snoc.IH snoc.prems(1) False by simp
    show ?thesis
    proof (cases "nat (BigInt_of_digits ys) = 0")
      case True
      with ih have "replicate (length ys - 1) CHR ''0'' @ [CHR ''0''] = ys"
        by (simp add: digits_of_nat_zero padStart_def)
      then have "replicate (length ys) CHR ''0'' = ys"
        using False by (cases "length ys") (simp_all add: replicate_append_same)
      then show ?thesis
        using True step c by (simp add: digits_of_nat_small digit_char_digit_value padStart_def)
    next
      case nz: False
      have "length (digits_of_nat (nat (BigInt_of_digits ys))) \<le> length ys"
      proof (rule ccontr)
        assume "\<not> ?thesis"
        with ih have "digits_of_nat (nat (BigInt_of_digits ys)) = ys" by (simp add: padStart_def)
        with \<open>\<not> ?thesis\<close> show False by simp
      qed
      then show ?thesis
        using nz step c ih by (simp add: digits_of_nat_step digit_char_digit_value padStart_def Suc_diff_le)
    qed
  qed
qed

lemma strip_trailing_zeros:
  "fd = [] \<or> last fd \<noteq> CHR ''0'' \<Longrightarrow>
     rev (dropWhile (\<lambda>c. c = CHR ''0'') (rev (fd @ replicate k CHR ''0''))) = fd"
proof -
  assume a: "fd = [] \<or> last fd \<noteq> CHR ''0''"
  have "dropWhile (\<lambda>c. c = CHR ''0'') (replicate k CHR ''0'' @ rev fd) = dropWhile (\<lambda>c. c = CHR ''0'') (rev fd)"
    by (induction k) simp_all
  moreover have "dropWhile (\<lambda>c. c = CHR ''0'') (rev fd) = rev fd"
    using a by (cases fd rule: rev_cases) simp_all
  ultimately show ?thesis by simp
qed

lemma bigint_div_rem_nonneg:
  "0 \<le> a \<Longrightarrow> 0 < b \<Longrightarrow> bigint_div a b = Inr (a div b)"
  "0 \<le> a \<Longrightarrow> 0 < b \<Longrightarrow> bigint_rem a b = Inr (a mod b)"
  by (auto simp: bigint_div_def bigint_rem_def sgn_if)

lemma trim_digits:
  assumes "s \<noteq> []" "is_digit (hd s)" "is_digit (last s)"
  shows "trim s = s"
proof -
  have d: "is_digit c \<Longrightarrow> \<not> is_space c" for c
    by (auto simp: is_digit_def is_space_def)
  have "dropWhile is_space s = s"
    using assms d by (cases s) auto
  moreover have "dropWhile is_space (rev s) = rev s"
    using assms d by (cases s rule: rev_cases) auto
  ultimately show ?thesis by (simp add: trim_def)
qed

lemma rounds_up_Nil: "\<not> rounds_up m []"
  by (cases m) (simp_all add: rounds_up_def)

lemma sanitize_canonical:
  assumes "ip \<noteq> []" "list_all is_digit ip" "list_all is_digit fd"
  shows "trim (filter (\<lambda>c. c \<noteq> CHR ''_'') (ip @ (if fd = [] then [] else CHR ''.'' # fd)))
           = ip @ (if fd = [] then [] else CHR ''.'' # fd)"
proof -
  let ?x = "ip @ (if fd = [] then [] else CHR ''.'' # fd)"
  have u: "is_digit c \<Longrightarrow> c \<noteq> CHR ''_''" for c
    by (auto simp: is_digit_def)
  have "\<forall>c \<in> set ?x. c \<noteq> CHR ''_''"
    using assms u by (auto simp: list_all_iff)
  then have f: "filter (\<lambda>c. c \<noteq> CHR ''_'') ?x = ?x"
    by (simp only: filter_id_conv)
  have "is_digit (hd ?x)"
    using assms by (cases ip) auto
  moreover have "is_digit (last ?x)"
    using assms by (auto simp: list_all_iff)
  moreover have "?x \<noteq> []" using assms by simp
  ultimately show ?thesis
    using trim_digits [of ?x] f by simp
qed

lemma formatBaseUnits_canonical:
  assumes canon: "canonical_decimal d ip fd"
  shows "formatBaseUnits (truncated_units ip fd d) d (10 ^ d) default_format
           = Inr (ip @ (if fd = [] then [] else CHR ''.'' # fd))"
proof -
  from canon have ip: "ip \<noteq> []" "list_all is_digit ip" "ip = ''0'' \<or> hd ip \<noteq> CHR ''0''"
    and fd: "list_all is_digit fd" "length fd \<le> d" "fd = [] \<or> last fd \<noteq> CHR ''0''"
    by (simp_all add: canonical_decimal_def)
  define pad where "pad = fd @ replicate (d - length fd) CHR ''0''"
  have pad_len: "length pad = d" using fd by (simp add: pad_def)
  have pad_digits: "list_all is_digit pad"
    using fd by (auto simp: pad_def list_all_iff is_digit_def)
  have units: "truncated_units ip fd d = BigInt_of_digits ip * 10 ^ d + BigInt_of_digits pad"
    using fd by (simp add: truncated_units_eq padEnd_def pad_def)
  have vip: "0 \<le> BigInt_of_digits ip"
    using BigInt_of_digits_bounds [OF ip(2)] by simp
  have vpad: "0 \<le> BigInt_of_digits pad" "BigInt_of_digits pad < 10 ^ d"
    using BigInt_of_digits_bounds [OF pad_digits] pad_len by simp_all
  have nonneg: "0 \<le> truncated_units ip fd d"
    using vip vpad by (simp add: units)
  have whole: "truncated_units ip fd d div 10 ^ d = BigInt_of_digits ip"
    using vpad by (simp add: units)
  have remainder: "truncated_units ip fd d mod 10 ^ d = BigInt_of_digits pad"
    using vpad by (simp add: units)
  have show_ip: "bigint_toString (BigInt_of_digits ip) = ip"
    using vip digits_of_nat_canonical [OF ip(2) ip(1) ip(3)] by (simp add: bigint_toString_def)
  show ?thesis
  proof (cases "d = 0")
    case True
    with fd have "fd = []" by simp
    then show ?thesis
      using True nonneg show_ip
      by (simp add: formatBaseUnits_def assertNonNegative_def default_format_def truncated_units_def)
  next
    case False
    then have "pad \<noteq> []" using pad_len by auto
    then have fraction: "padStart d CHR ''0'' (bigint_toString (BigInt_of_digits pad)) = pad"
      using padStart_digits [OF pad_digits] vpad pad_len by (simp add: bigint_toString_def)
    have stripped: "rev (dropWhile (\<lambda>c. c = CHR ''0'') (rev pad)) = fd"
      unfolding pad_def by (rule strip_trailing_zeros [OF fd(3)])
    have dr: "bigint_div (truncated_units ip fd d) (10 ^ d) = Inr (BigInt_of_digits ip)"
      "bigint_rem (truncated_units ip fd d) (10 ^ d) = Inr (BigInt_of_digits pad)"
      using bigint_div_rem_nonneg [OF nonneg, of "10 ^ d"] whole remainder by simp_all
    show ?thesis
      using False nonneg
      by (simp add: formatBaseUnits_def assertNonNegative_def default_format_def dr fraction stripped
          show_ip Let_def)
  qed
qed

lemma toDecimalString_nonneg:
  "0 \<le> a \<Longrightarrow> toDecimalString tm a options = formatBaseUnits a (tam_decimals tm) (tam_scale tm) options"
  by (simp add: toDecimalString_def fromBaseUnits_def toBigint_def assertNonNegative_def)

lemma truncated_units_nonneg:
  "list_all is_digit ip \<Longrightarrow> list_all is_digit fd \<Longrightarrow> 0 \<le> truncated_units ip fd d"
proof -
  assume a: "list_all is_digit ip" "list_all is_digit fd"
  have "list_all is_digit (ip @ take d fd @ replicate (d - length fd) CHR ''0'')"
    using a by (auto simp: list_all_iff is_digit_def dest: in_set_takeD)
  from BigInt_of_digits_bounds [OF this] show ?thesis
    by (simp add: truncated_units_def)
qed

text \<open>
  C7, as the claim states it, fails: with 6 decimals, \<^verbatim>\<open>'1.50'\<close> loses no digit in
  \<^verbatim>\<open>fromDecimal\<close>, and \<^verbatim>\<open>toDecimalString\<close> prints the result as \<^verbatim>\<open>'1.5'\<close>.
\<close>

theorem toDecimalString_inverse_counterexample:
  "createTokenAmount 6 = Inr six_decimals \<and>
   drop (tam_decimals six_decimals) ''50'' = [] \<and>
   fromDecimal six_decimals (DecimalString ''1.50'') (with_rounding Floor) = Inr 1500000 \<and>
   toDecimalString six_decimals 1500000 default_format = Inr ''1.5'' \<and>
   ''1.5'' \<noteq> ''1.50''"
proof -
  have s: "trim (filter (\<lambda>c. c \<noteq> CHR ''_'') ''1.50'') = ''1'' @ (if ''50'' = [] then [] else CHR ''.'' # ''50'')"
    "''1'' \<noteq> []" "list_all is_digit ''1''" "list_all is_digit ''50''"
    by (simp_all add: trim_def is_space_def is_digit_def)
  have u: "truncated_units ''1'' ''50'' 6 = 1500000" "truncated_units ''1'' ''5'' 6 = 1500000"
    by (simp_all add: truncated_units_def BigInt_of_digits_def digit_value_def eval_nat_numeral)
  have six: "tam_scale six_decimals = 10 ^ 6" "tam_decimals six_decimals = 6"
    by (simp_all add: six_decimals_def)
  have a: "fromDecimal six_decimals (DecimalString ''1.50'') (with_rounding Floor) = Inr 1500000"
    using decimalToBaseUnits_digits [OF s, of 6 None "Some Floor"] u
    by (simp add: fromDecimal_def six with_rounding_def rounds_up_def)
  have c: "canonical_decimal 6 ''1'' ''5''"
    by (simp add: canonical_decimal_def is_digit_def)
  have b: "toDecimalString six_decimals 1500000 default_format = Inr ''1.5''"
    using formatBaseUnits_canonical [OF c] u
    by (simp add: toDecimalString_nonneg six)
  from a b six_decimals_created show ?thesis
    by (simp add: six)
qed

text \<open>
  C7, amended. For every canonical decimal string \<open>x\<close> (integer digits without a
  superfluous leading zero, then, if there is a fraction, a point and at most
  \<open>decimals\<close> fractional digits of which the last is not zero; no underscores or
  surrounding white space), \<^verbatim>\<open>toDecimalString(fromDecimal(x))\<close> with the default
  formatting options is \<open>x\<close>, whatever the rounding mode.
\<close>

theorem toDecimalString_inverse:
  assumes "createTokenAmount decimals = Inr tm"
    and "canonical_decimal (tam_decimals tm) ip fd"
    and "x = ip @ (if fd = [] then [] else CHR ''.'' # fd)"
  shows "fromDecimal tm (DecimalString x) options = Inr (truncated_units ip fd (tam_decimals tm)) \<and>
         toDecimalString tm (truncated_units ip fd (tam_decimals tm)) default_format = Inr x"
proof -
  from assms(2) have ip: "ip \<noteq> []" "list_all is_digit ip" and fd: "list_all is_digit fd"
    and short: "length fd \<le> tam_decimals tm"
    by (simp_all add: canonical_decimal_def)
  have scale: "tam_scale tm = 10 ^ tam_decimals tm"
    using createTokenAmount_scale [OF assms(1)] by simp
  have san: "trim (filter (\<lambda>c. c \<noteq> CHR ''_'') x) = ip @ (if fd = [] then [] else CHR ''.'' # fd)"
    unfolding assms(3) by (rule sanitize_canonical [OF ip fd])
  obtain l r where options: "options = \<lparr>parse_label = l, parse_rounding = r\<rparr>"
    by (cases options) simp
  have "fromDecimal tm (DecimalString x) options = Inr (truncated_units ip fd (tam_decimals tm))"
    using decimalToBaseUnits_digits [OF san ip fd, of "tam_decimals tm" l r] short
    by (simp add: fromDecimal_def scale options rounds_up_Nil)
  moreover have "toDecimalString tm (truncated_units ip fd (tam_decimals tm)) default_format = Inr x"
    using formatBaseUnits_canonical [OF assms(2)] truncated_units_nonneg [OF ip(2) fd]
    by (simp add: toDecimalString_nonneg scale assms(3))
  ultimately show ?thesis by simp
qed

theorem toDecimalString_inverse_witness:
  "createTokenAmount 6 = Inr six_decimals \<and>
   canonical_decimal (tam_decimals six_decimals) ''1'' ''5'' \<and>
   fromDecimal six_decimals (DecimalString ''1.5'') (with_rounding Ceil) = Inr 1500000 \<and>
   toDecimalString six_decimals 1500000 default_format = Inr ''1.5''"
proof -
  have c: "canonical_decimal (tam_decimals six_decimals) ''1'' ''5''"
    by (simp add: canonical_decimal_def is_digit_def six_decimals_def)
  have u: "truncated_units ''1'' ''5'' (tam_decimals six_decimals) = 1500000"
    by (simp add: truncated_units_def BigInt_of_digits_def digit_value_def six_decimals_def eval_nat_numeral)
  from toDecimalString_inverse [OF six_decimals_created c, of "''1.5''" "with_rounding Ceil"] c u
    six_decimals_created
  show ?thesis by simp
qed

section \<open>Properties of transaction preparation\<close>

lemma helper_prepare_impl_mode:
  assumes "helper_prepare_impl rt request w = (Inr prepared, w')"
    and "resolveAuthority (req_authority request) (normaliseCommitment rt request w) = Inr (authoritySigner, mode0)"
    and "resolveFeePayerAddress rt (req_feePayer request) authoritySigner = Inr (payer, feePayerSigner)"
  shows "prep_mode prepared = settle_mode mode0 feePayerSigner"
    and "prep_version prepared = resolveVersion (req_version request) (req_instructions request)"
  using assms
  by (auto simp: helper_prepare_impl_def Let_def split: if_splits sum.splits prod.splits)

lemmas demo_runtime_defs =
  demo_runtime_def demo_compute_budget_def little_endian_def send_only_session_def demo_request_def
  demo_instruction_def

lemmas prepare_defs =
  helper_prepare_impl_def throwIfAborted_def normaliseCommitment_def resolveAuthority_def
  createWalletTransactionSigner_def resolveSignerMode_def resolveFeePayerAddress_def
  fee_payer_truthy_def settle_mode_def resolveVersion_def version_truthy_def
  instructionUsesAddressLookup_def resolveComputeUnitLimit_def resolveComputeUnitPrice_def
  prefixInstructions_def isTransactionSendingSigner_def isTransactionPartialSigner_def Let_def

text \<open>
  C3. A wallet session that exposes \<^verbatim>\<open>sendTransaction\<close> and no \<^verbatim>\<open>signTransaction\<close>
  resolves to mode \<^verbatim>\<open>send\<close>, with a sending signer for the wallet's address. A
  \<^verbatim>\<open>prepare\<close> that succeeds for a request whose authority resolved to \<^verbatim>\<open>send\<close> and
  whose resolved fee payer has no signer, or a signer that is not a sending signer,
  returns a Prepared Transaction in mode \<^verbatim>\<open>partial\<close>. A fee payer given as an address
  other than the authority's resolves to that address without a signer.
\<close>

theorem signer_mode_consistency:
  "(\<not> has_signTransaction session \<and> has_sendTransaction session \<longrightarrow>
      (\<exists>signer. createWalletTransactionSigner session commitment = Inr (Send, signer) \<and>
                isTransactionSendingSigner signer \<and> signer_address signer = account_address session)) \<and>
   (helper_prepare_impl rt request w = (Inr prepared, w') \<and>
    resolveAuthority (req_authority request) (normaliseCommitment rt request w) = Inr (authoritySigner, Send) \<and>
    resolveFeePayerAddress rt (req_feePayer request) authoritySigner = Inr (payer, feePayerSigner) \<and>
    (feePayerSigner = None \<or> (\<exists>s. feePayerSigner = Some s \<and> \<not> isTransactionSendingSigner s)) \<longrightarrow>
      prep_mode prepared = Partial) \<and>
   (feePayer = Some (FeePayerAddress a) \<and> a \<noteq> [] \<and> parseAddress rt a = Inr a' \<and>
    (\<forall>auth. authority = Some auth \<longrightarrow> signer_address auth \<noteq> a') \<longrightarrow>
      resolveFeePayerAddress rt feePayer authority = Inr (a', None))"
proof (intro conjI impI)
  assume "\<not> has_signTransaction session \<and> has_sendTransaction session"
  then show "\<exists>signer. createWalletTransactionSigner session commitment = Inr (Send, signer) \<and>
                isTransactionSendingSigner signer \<and> signer_address signer = account_address session"
    by (simp add: createWalletTransactionSigner_def isTransactionSendingSigner_def)
next
  assume a: "helper_prepare_impl rt request w = (Inr prepared, w') \<and>
    resolveAuthority (req_authority request) (normaliseCommitment rt request w) = Inr (authoritySigner, Send) \<and>
    resolveFeePayerAddress rt (req_feePayer request) authoritySigner = Inr (payer, feePayerSigner) \<and>
    (feePayerSigner = None \<or> (\<exists>s. feePayerSigner = Some s \<and> \<not> isTransactionSendingSigner s))"
  then have "prep_mode prepared = settle_mode Send feePayerSigner"
    using helper_prepare_impl_mode(1) [of rt request w prepared w' authoritySigner Send payer feePayerSigner]
    by simp
  with a show "prep_mode prepared = Partial"
    by (auto simp: settle_mode_def)
next
  assume "feePayer = Some (FeePayerAddress a) \<and> a \<noteq> [] \<and> parseAddress rt a = Inr a' \<and>
    (\<forall>auth. authority = Some auth \<longrightarrow> signer_address auth \<noteq> a')"
  then show "resolveFeePayerAddress rt feePayer authority = Inr (a', None)"
    by (auto simp: resolveFeePayerAddress_def fee_payer_truthy_def split: option.splits)
qed

theorem signer_mode_consistency_witness:
  "\<not> has_signTransaction send_only_session \<and> has_sendTransaction send_only_session \<and>
   resolveAuthority (Some (WalletAuthority send_only_session)) Confirmed
     = Inr (Some \<lparr>signer_address = ''wallet'', has_signTransactions = False,
                  has_modifyAndSignTransactions = False, has_signAndSendTransactions = True\<rparr>, Send) \<and>
   prep_mode (projr (fst (helper_prepare_impl demo_runtime demo_request 0))) = Send \<and>
   isl (fst (helper_prepare_impl demo_runtime
               (demo_request\<lparr>req_feePayer := Some (FeePayerAddress ''other'')\<rparr>) 0)) = False \<and>
   prep_mode (projr (fst (helper_prepare_impl demo_runtime
               (demo_request\<lparr>req_feePayer := Some (FeePayerAddress ''other'')\<rparr>) 0))) = Partial"
proof -
  let ?signer = "\<lparr>signer_address = ''wallet'', has_signTransactions = False,
                  has_modifyAndSignTransactions = False, has_signAndSendTransactions = True\<rparr>"
  let ?request = "demo_request\<lparr>req_feePayer := Some (FeePayerAddress ''other'')\<rparr>"
  have wallet: "\<not> has_signTransaction send_only_session \<and> has_sendTransaction send_only_session"
    by (simp add: send_only_session_def)
  have auth: "resolveAuthority (req_authority ?request) (normaliseCommitment demo_runtime ?request 0)
                = Inr (Some ?signer, Send)"
    by (simp add: prepare_defs demo_runtime_defs)
  have payer: "resolveFeePayerAddress demo_runtime (req_feePayer ?request) (Some ?signer) = Inr (''other'', None)"
    by (simp add: prepare_defs demo_runtime_defs)
  have ok: "helper_prepare_impl demo_runtime ?request 0
              = (Inr (projr (fst (helper_prepare_impl demo_runtime ?request 0))), 1)"
    by (simp add: prepare_defs demo_runtime_defs)
  have same: "prep_mode (projr (fst (helper_prepare_impl demo_runtime demo_request 0))) = Send"
    by (simp add: prepare_defs demo_runtime_defs)
  have a: "resolveAuthority (Some (WalletAuthority send_only_session)) Confirmed = Inr (Some ?signer, Send)"
    by (simp add: prepare_defs demo_runtime_defs)
  have l: "isl (fst (helper_prepare_impl demo_runtime ?request 0)) = False"
    by (simp add: prepare_defs demo_runtime_defs)
  from signer_mode_consistency
         [where session = send_only_session and commitment = "Some Confirmed" and rt = demo_runtime
            and request = ?request and w = 0
            and prepared = "projr (fst (helper_prepare_impl demo_runtime ?request 0))" and w' = 1
            and authoritySigner = "Some ?signer" and payer = "''other''" and feePayerSigner = None
            and feePayer = "Some (FeePayerAddress ''other'')" and a = "''other''" and a' = "''other''"
            and authority = "Some ?signer"]
    wallet auth payer ok same a l
  show ?thesis
    by simp
qed

lemma resolveVersion_auto:
  "requested = None \<or> requested = Some Auto \<Longrightarrow>
     resolveVersion requested instructions =
       (if \<exists>i \<in> set instructions. instructionUsesAddressLookup i then V0 else Legacy)"
  by (auto simp: resolveVersion_def list_ex_iff)

lemma resolveVersion_legacy: "resolveVersion (Some (Explicit Legacy)) instructions = Legacy"
  by (simp add: resolveVersion_def version_truthy_def)

text \<open>
  C5. The claim holds for a version that is absent, \<^verbatim>\<open>'auto'\<close> or \<^verbatim>\<open>'legacy'\<close> (the two
  lemmas above). It fails for the explicit version \<^verbatim>\<open>0\<close>: the test
  \<^verbatim>\<open>requested && requested !== 'auto'\<close> takes the number 0 for a missing version, so a
  request for version 0 whose instructions reference no lookup table is resolved, and
  prepared, as \<^verbatim>\<open>'legacy'\<close>.
\<close>

theorem resolveVersion_explicit_zero:
  "\<not> instructionUsesAddressLookup demo_instruction \<and>
   resolveVersion (Some (Explicit V0)) [demo_instruction] = Legacy \<and>
   prep_version (projr (fst (helper_prepare_impl demo_runtime
                   (demo_request\<lparr>req_version := Some (Explicit V0)\<rparr>) 0))) = Legacy \<and>
   isl (fst (helper_prepare_impl demo_runtime
                   (demo_request\<lparr>req_version := Some (Explicit V0)\<rparr>) 0)) = False"
  by (simp add: prepare_defs demo_runtime_defs)

section \<open>Properties of the compute unit tuner\<close>


lemma findIndex_None: "findIndex P xs = None \<longleftrightarrow> (\<forall>x \<in> set xs. \<not> P x)"
  by (induction xs) (auto split: option.splits)


text \<open>
  The default multiplier is the double nearest to 11/10: with \<open>m = 4953959590107546\<close>,
  \<open>|m / 2 ^ 52 - 11 / 10| \<le> 2 ^ -53\<close> (half a unit in the last place), that is
  \<open>|10 * m - 11 * 2 ^ 52| \<le> 5\<close>.
\<close>

lemma default_multiplier_nearest:
  "DEFAULT_COMPUTE_UNIT_LIMIT_MULTIPLIER = Finite m e \<Longrightarrow>
     e = - 52 \<and> \<bar>10 * m - 11 * 2 ^ 52\<bar> \<le> 5 \<and> 2 ^ 52 \<le> m \<and> m < 2 ^ 53"
  by (auto simp: DEFAULT_COMPUTE_UNIT_LIMIT_MULTIPLIER_def)



lemma compute_units_falsy:
  "compute_units (if js_truthy n then n else Finite 0 0) m =
     js_max (Finite 1 0) (if js_truthy n then js_ceil (js_mul n m) else Finite 200000 0)"
  by (simp add: compute_units_def js_truthy_def)


lemma prepareTransaction_keeps:
  assumes "prepareTransaction rt config w = (Inr tuned, w')"
    and "findIndex isComputeUnitLimitInstruction (msg_instructions (pt_transaction config)) \<noteq> None"
    and "pt_computeUnitLimitReset config \<noteq> Some True"
  shows "msg_instructions tuned = msg_instructions (pt_transaction config)"
  using assms
  by (auto simp: prepareTransaction_def Let_def split: if_splits sum.splits prod.splits option.splits)










section \<open>Properties of the SPL token helper\<close>

lemma prepareTransfer_lifetime:
  assumes "prepareTransfer rt lib config s = (Inr prepared, s')"
  shows "\<exists>w. resolveLifetime rt (spl_commitment config) (spl_lifetime config) (snd s)
               = (Inr (pst_lifetime prepared), w)"
  using assms
  by (auto simp: prepareTransfer_def Let_def split: sum.splits prod.splits)

text \<open>
  C1. \<^verbatim>\<open>sendTransfer\<close> prepares the config and, when that succeeds, sends once. A
  rejected preparation, a first send that succeeds and a first send rejected with
  anything but the already-processed transaction error end the call there, with that
  outcome. A first send rejected as already processed is followed by one preparation of
  the same config with the lifetime cleared, whose lifetime is then the one that
  \<^verbatim>\<open>getLatestBlockhash\<close> returns at that moment, and, when that preparation succeeds, by
  one more send, whose outcome, a signature or any rejection, is the outcome of the
  call.
\<close>

theorem sendTransfer_retry:
  "(prepareTransfer rt lib config s = (Inl e, s1) \<longrightarrow>
      sendTransfer rt lib config sendOptions s = ([CallPrepareTransfer config], (Inl e, s1))) \<and>
   (prepareTransfer rt lib config s = (Inr prepared, s1) \<longrightarrow>
      (sendPreparedTransfer rt prepared sendOptions s1 = (Inr sig, s2) \<longrightarrow>
         sendTransfer rt lib config sendOptions s =
           ([CallPrepareTransfer config, CallSendPreparedTransfer prepared], (Inr sig, s2))) \<and>
      (sendPreparedTransfer rt prepared sendOptions s1 = (Inl e, s2) \<and>
       \<not> isSolanaError e TransactionErrorAlreadyProcessed \<longrightarrow>
         sendTransfer rt lib config sendOptions s =
           ([CallPrepareTransfer config, CallSendPreparedTransfer prepared], (Inl e, s2))) \<and>
      (sendPreparedTransfer rt prepared sendOptions s1 = (Inl e, s2) \<and>
       isSolanaError e TransactionErrorAlreadyProcessed \<longrightarrow>
         (prepareTransfer rt lib (config\<lparr>spl_lifetime := None\<rparr>) s2 = (Inl e', s3) \<longrightarrow>
            sendTransfer rt lib config sendOptions s =
              ([CallPrepareTransfer config, CallSendPreparedTransfer prepared,
                CallPrepareTransfer (config\<lparr>spl_lifetime := None\<rparr>)], (Inl e', s3))) \<and>
         (prepareTransfer rt lib (config\<lparr>spl_lifetime := None\<rparr>) s2 = (Inr retried, s3) \<longrightarrow>
            sendTransfer rt lib config sendOptions s =
              ([CallPrepareTransfer config, CallSendPreparedTransfer prepared,
                CallPrepareTransfer (config\<lparr>spl_lifetime := None\<rparr>),
                CallSendPreparedTransfer retried],
               sendPreparedTransfer rt retried sendOptions s3) \<and>
            (\<exists>w. rpc_getLatestBlockhash rt (spl_commitment config) None (snd s2)
                   = (Inr (pst_lifetime retried), w)))))"
proof -
  have fresh: "\<exists>w. rpc_getLatestBlockhash rt (spl_commitment config) None (snd s2)
                     = (Inr (pst_lifetime retried), w)"
    if "prepareTransfer rt lib (config\<lparr>spl_lifetime := None\<rparr>) s2 = (Inr retried, s3)"
    using prepareTransfer_lifetime [OF that] by (simp add: resolveLifetime_def)
  show ?thesis
    using fresh by (simp add: sendTransfer_def)
qed

lemmas spl_defs =
  prepareTransfer_def resolveLifetime_def resolveSigner_def resolveSignerMode_def ensureAddress_def
  deriveAssociatedTokenAddress_def getTokenMath_def resolveDecimals_def transfer_amount_def
  transfer_instructions_def createTokenAmount_def pow10_def assertDecimals_def fromBaseUnits_def
  toBigint_def assertNonNegative_def isTransactionPartialSigner_def isTransactionSendingSigner_def
  sendPreparedTransfer_def sign_then_send_def sign_and_send_def resolve_maxRetries_def
  no_send_options_def Let_def

lemmas demo_spl_defs =
  retry_runtime_def demo_runtime_def demo_spl_library_def demo_spl_helper_def demo_signer_def
  demo_transfer_config_def demo_prepared_transfer_def demo_lifetime_def six_decimals_def

theorem sendTransfer_retry_witness:
  "sendTransfer (retry_runtime (SolanaError TransactionErrorAlreadyProcessed) 1) demo_spl_library
       demo_transfer_config None (demo_spl_helper, 0) =
     ([CallPrepareTransfer demo_transfer_config,
       CallSendPreparedTransfer (demo_prepared_transfer demo_lifetime),
       CallPrepareTransfer (demo_transfer_config\<lparr>spl_lifetime := None\<rparr>),
       CallSendPreparedTransfer
         (demo_prepared_transfer \<lparr>blockhash = ''fresh'', lastValidBlockHeight = 1\<rparr>)],
      (Inr ''signature'', (demo_spl_helper\<lparr>cachedMath := Some six_decimals\<rparr>, 3))) \<and>
   sendTransfer (retry_runtime (SolanaError TransactionErrorAlreadyProcessed) 3) demo_spl_library
       demo_transfer_config None (demo_spl_helper, 0) =
     ([CallPrepareTransfer demo_transfer_config,
       CallSendPreparedTransfer (demo_prepared_transfer demo_lifetime),
       CallPrepareTransfer (demo_transfer_config\<lparr>spl_lifetime := None\<rparr>),
       CallSendPreparedTransfer
         (demo_prepared_transfer \<lparr>blockhash = ''fresh'', lastValidBlockHeight = 1\<rparr>)],
      (Inl (SolanaError TransactionErrorAlreadyProcessed),
       (demo_spl_helper\<lparr>cachedMath := Some six_decimals\<rparr>, 3))) \<and>
   sendTransfer (retry_runtime (SolanaError (OtherSolanaErrorCode 7050005)) 1) demo_spl_library
       demo_transfer_config None (demo_spl_helper, 0) =
     ([CallPrepareTransfer demo_transfer_config,
       CallSendPreparedTransfer (demo_prepared_transfer demo_lifetime)],
      (Inl (SolanaError (OtherSolanaErrorCode 7050005)),
       (demo_spl_helper\<lparr>cachedMath := Some six_decimals\<rparr>, 1))) \<and>
   sendTransfer (retry_runtime (SolanaError TransactionErrorAlreadyProcessed) 1) demo_spl_library
       (demo_transfer_config\<lparr>spl_destinationOwner := []\<rparr>) None (demo_spl_helper, 0) =
     ([CallPrepareTransfer (demo_transfer_config\<lparr>spl_destinationOwner := []\<rparr>)],
      (Inl (Error ''An address value was expected but not provided.''), (demo_spl_helper, 0)))"
proof -
  let ?already = "SolanaError TransactionErrorAlreadyProcessed"
  let ?other = "SolanaError (OtherSolanaErrorCode 7050005)"
  let ?cached = "demo_spl_helper\<lparr>cachedMath := Some six_decimals\<rparr>"
  let ?fresh = "\<lparr>blockhash = ''fresh'', lastValidBlockHeight = 1\<rparr>"
  have first: "prepareTransfer (retry_runtime err k) demo_spl_library demo_transfer_config (demo_spl_helper, 0)
                 = (Inr (demo_prepared_transfer demo_lifetime), (?cached, 0))" for err k
    by (simp add: spl_defs demo_spl_defs)
  have second: "prepareTransfer (retry_runtime err k) demo_spl_library
                  (demo_transfer_config\<lparr>spl_lifetime := None\<rparr>) (?cached, 1)
                 = (Inr (demo_prepared_transfer ?fresh), (?cached, 2))" for err k
    by (simp add: spl_defs demo_spl_defs)
  have rejected: "prepareTransfer (retry_runtime err k) demo_spl_library
                    (demo_transfer_config\<lparr>spl_destinationOwner := []\<rparr>) (demo_spl_helper, 0)
                   = (Inl (Error ''An address value was expected but not provided.''), (demo_spl_helper, 0))"
    for err k
    by (simp add: spl_defs demo_spl_defs)
  have sent: "sendPreparedTransfer (retry_runtime err k) (demo_prepared_transfer lifetime) None (?cached, w)
                = (if w < k then Inl err else Inr ''signature'', (?cached, Suc w))" for err k lifetime w
    by (simp add: spl_defs demo_spl_defs)
  have once: "isSolanaError ?already TransactionErrorAlreadyProcessed"
    and never: "\<not> isSolanaError ?other TransactionErrorAlreadyProcessed"
    by (simp_all add: isSolanaError_def)
  have a: "sendTransfer (retry_runtime ?already 1) demo_spl_library demo_transfer_config None (demo_spl_helper, 0) =
     ([CallPrepareTransfer demo_transfer_config,
       CallSendPreparedTransfer (demo_prepared_transfer demo_lifetime),
       CallPrepareTransfer (demo_transfer_config\<lparr>spl_lifetime := None\<rparr>),
       CallSendPreparedTransfer (demo_prepared_transfer ?fresh)],
      (Inr ''signature'', (?cached, 3)))"
    using sendTransfer_retry
            [where rt = "retry_runtime ?already 1" and lib = demo_spl_library and config = demo_transfer_config
               and s = "(demo_spl_helper, 0)" and sendOptions = None
               and prepared = "demo_prepared_transfer demo_lifetime" and ?s1.0 = "(?cached, 0)"
               and e = ?already and ?s2.0 = "(?cached, 1)"
               and retried = "demo_prepared_transfer ?fresh" and ?s3.0 = "(?cached, 2)"]
      first [of ?already 1] second [of ?already 1] sent [of ?already 1] once
    by simp
  have b: "sendTransfer (retry_runtime ?already 3) demo_spl_library demo_transfer_config None (demo_spl_helper, 0) =
     ([CallPrepareTransfer demo_transfer_config,
       CallSendPreparedTransfer (demo_prepared_transfer demo_lifetime),
       CallPrepareTransfer (demo_transfer_config\<lparr>spl_lifetime := None\<rparr>),
       CallSendPreparedTransfer (demo_prepared_transfer ?fresh)],
      (Inl ?already, (?cached, 3)))"
    using sendTransfer_retry
            [where rt = "retry_runtime ?already 3" and lib = demo_spl_library and config = demo_transfer_config
               and s = "(demo_spl_helper, 0)" and sendOptions = None
               and prepared = "demo_prepared_transfer demo_lifetime" and ?s1.0 = "(?cached, 0)"
               and e = ?already and ?s2.0 = "(?cached, 1)"
               and retried = "demo_prepared_transfer ?fresh" and ?s3.0 = "(?cached, 2)"]
      first [of ?already 3] second [of ?already 3] sent [of ?already 3] once
    by simp
  have c: "sendTransfer (retry_runtime ?other 1) demo_spl_library demo_transfer_config None (demo_spl_helper, 0) =
     ([CallPrepareTransfer demo_transfer_config,
       CallSendPreparedTransfer (demo_prepared_transfer demo_lifetime)],
      (Inl ?other, (?cached, 1)))"
    using sendTransfer_retry
            [where rt = "retry_runtime ?other 1" and lib = demo_spl_library and config = demo_transfer_config
               and s = "(demo_spl_helper, 0)" and sendOptions = None
               and prepared = "demo_prepared_transfer demo_lifetime" and ?s1.0 = "(?cached, 0)"
               and e = ?other and ?s2.0 = "(?cached, 1)"]
      first [of ?other 1] sent [of ?other 1] never
    by simp
  have d: "sendTransfer (retry_runtime ?already 1) demo_spl_library
             (demo_transfer_config\<lparr>spl_destinationOwner := []\<rparr>) None (demo_spl_helper, 0) =
     ([CallPrepareTransfer (demo_transfer_config\<lparr>spl_destinationOwner := []\<rparr>)],
      (Inl (Error ''An address value was expected but not provided.''), (demo_spl_helper, 0)))"
    using sendTransfer_retry
            [where rt = "retry_runtime ?already 1" and lib = demo_spl_library
               and config = "demo_transfer_config\<lparr>spl_destinationOwner := []\<rparr>"
               and s = "(demo_spl_helper, 0)" and sendOptions = None
               and e = "Error ''An address value was expected but not provided.''"
               and ?s1.0 = "(demo_spl_helper, 0)"]
      rejected [of ?already 1]
    by simp
  from a b c d show ?thesis
    by simp
qed

section \<open>Propagation of failures\<close>

subsection \<open>The balance of a token account\<close>




subsection \<open>Token transfers\<close>









subsection \<open>The Transaction Helper and the tuner\<close>










subsection \<open>The pool controller\<close>










end
